theory Spec2Isabelle
  imports Complex_Main
begin

section \<open>Numerics of the multiple-shooting SQP solver\<close>

text \<open>
  The solver computes with \<^verbatim>\<open>scalar_t\<close> (a C++ double) and with dense Eigen vectors and
  matrices. The embedding idealises \<^verbatim>\<open>scalar_t\<close> as \<^typ>\<open>real\<close>: rounding, infinities and
  NaN are outside the model. A vector is the list of its coefficients, a matrix the list of
  its rows. Eigen requires the operands of a sum or a product to have matching sizes; the
  operations below pair coefficients with \<^const>\<open>zip\<close>, and the theorems state the sizes
  they rely on.
\<close>

type_synonym scalar_t = real
type_synonym vector_t = "real list"
type_synonym matrix_t = "real list list"
type_synonym scalar_array_t = "scalar_t list"
type_synonym vector_array_t = "vector_t list"
type_synonym matrix_array_t = "matrix_t list"

definition vec_add :: "vector_t \<Rightarrow> vector_t \<Rightarrow> vector_t" where
  "vec_add a b = map2 (+) a b"

definition vec_sub :: "vector_t \<Rightarrow> vector_t \<Rightarrow> vector_t" where
  "vec_sub a b = map2 (-) a b"

definition vec_scale :: "scalar_t \<Rightarrow> vector_t \<Rightarrow> vector_t" where
  "vec_scale c v = map ((*) c) v"

definition dot :: "vector_t \<Rightarrow> vector_t \<Rightarrow> scalar_t" where
  "dot a b = sum_list (map2 (*) a b)"

definition squaredNorm :: "vector_t \<Rightarrow> scalar_t" where
  "squaredNorm v = sum_list (map (\<lambda>c. c * c) v)"

definition mat_vec :: "matrix_t \<Rightarrow> vector_t \<Rightarrow> vector_t" where
  "mat_vec A v = map (\<lambda>row. dot row v) A"

definition mat_add :: "matrix_t \<Rightarrow> matrix_t \<Rightarrow> matrix_t" where
  "mat_add A B = map2 vec_add A B"

definition mat_mul :: "matrix_t \<Rightarrow> matrix_t \<Rightarrow> matrix_t" where
  "mat_mul A B = map (\<lambda>row. map (\<lambda>col. dot row col) (transpose B)) A"


section \<open>Data model\<close>

text \<open>
  Modelled from the spec: \<^verbatim>\<open>AnnotatedTime\<close> is declared outside the sources. A grid node
  carries its time and whether it is the node just before an event.
\<close>

datatype Event = Interior | PreEvent

record AnnotatedTime =
  time :: scalar_t
  event :: Event

text \<open>
  Modelled from the spec: the affine model \<^verbatim>\<open>f + dfdx * dx + dfdu * du\<close>
  (\<^verbatim>\<open>VectorFunctionLinearApproximation\<close>, declared outside the sources), with the field
  names the solver reads.
\<close>

record VectorFunctionLinearApproximation =
  f :: vector_t
  dfdx :: matrix_t
  dfdu :: matrix_t

text \<open>\<^verbatim>\<open>VectorFunctionLinearApproximation::Zero(nv, nx, nu)\<close>: all coefficients zero.\<close>

definition Zero :: "nat \<Rightarrow> nat \<Rightarrow> nat \<Rightarrow> VectorFunctionLinearApproximation" where
  "Zero nv nx nu =
     \<lparr>f = replicate nv 0, dfdx = replicate nv (replicate nx 0), dfdu = replicate nv (replicate nu 0)\<rparr>"

text \<open>
  Modelled from the spec: \<^verbatim>\<open>PerformanceIndex\<close> is declared outside the sources. It is
  default-constructed with every field zero, and \<^verbatim>\<open>+=\<close> adds field by field
  (``additive across stages and threads'').
\<close>

record PerformanceIndex =
  merit :: scalar_t
  totalCost :: scalar_t
  stateEqConstraintISE :: scalar_t
  stateInputEqConstraintISE :: scalar_t
  inequalityConstraintISE :: scalar_t
  inequalityConstraintPenalty :: scalar_t

definition PerformanceIndex_default :: PerformanceIndex where
  "PerformanceIndex_default =
     \<lparr>merit = 0, totalCost = 0, stateEqConstraintISE = 0, stateInputEqConstraintISE = 0,
      inequalityConstraintISE = 0, inequalityConstraintPenalty = 0\<rparr>"

definition perf_add :: "PerformanceIndex \<Rightarrow> PerformanceIndex \<Rightarrow> PerformanceIndex" where
  "perf_add a b =
     \<lparr>merit = merit a + merit b,
      totalCost = totalCost a + totalCost b,
      stateEqConstraintISE = stateEqConstraintISE a + stateEqConstraintISE b,
      stateInputEqConstraintISE = stateInputEqConstraintISE a + stateInputEqConstraintISE b,
      inequalityConstraintISE = inequalityConstraintISE a + inequalityConstraintISE b,
      inequalityConstraintPenalty = inequalityConstraintPenalty a + inequalityConstraintPenalty b\<rparr>"

text \<open>
  The settings the solver reads (\<^verbatim>\<open>Settings\<close> is declared outside the sources; the
  diagnostics toggles only print and are left out).
\<close>

record Settings =
  sqpIteration :: nat
  nThreads :: nat
  dt :: scalar_t
  projectStateInputEqualityConstraints :: bool
  useFeedbackPolicy :: bool
  alpha_decay :: scalar_t
  alpha_min :: scalar_t
  gamma_c :: scalar_t
  g_max :: scalar_t
  g_min :: scalar_t
  costTol :: scalar_t
  deltaTol :: scalar_t


text \<open>
  The two controllers \<^verbatim>\<open>setPrimalSolution\<close> constructs, with their constructor arguments:
  \<^verbatim>\<open>LinearController(time, uff, gain)\<close> and \<^verbatim>\<open>FeedforwardController(time, input)\<close>.
\<close>

datatype Controller =
  LinearController scalar_array_t vector_array_t matrix_array_t
| FeedforwardController scalar_array_t vector_array_t

record ModeSchedule =
  eventTimes :: scalar_array_t
  modeSequence :: "nat list"

record PrimalSolution =
  timeTrajectory' :: scalar_array_t
  stateTrajectory' :: vector_array_t
  inputTrajectory' :: vector_array_t
  controllerPtr' :: "Controller option"
  modeSchedule' :: ModeSchedule

text \<open>
  Modelled from the spec: the QP back-end (\<^verbatim>\<open>HpipmInterface\<close>, outside the sources) offers
  \<^verbatim>\<open>resize\<close>, \<^verbatim>\<open>solve\<close> and \<^verbatim>\<open>getRiccatiFeedback\<close>. Its state is the size it was last
  resized to and the requests it has received; a solve request keeps the initial state
  deviation and the constraints pointer it was given (\<open>None\<close> for \<^verbatim>\<open>nullptr\<close>). The solver
  only compares the returned status with \<^verbatim>\<open>SUCCESS\<close>.
\<close>

datatype hpipm_status = SUCCESS | FAILURE nat

datatype 'sz hpipm_request =
  Resize 'sz
| Solve vector_t "VectorFunctionLinearApproximation list option"

record 'sz HpipmInterface =
  ocpSize' :: 'sz
  requests :: "'sz hpipm_request list"

definition resize :: "'sz \<Rightarrow> 'sz HpipmInterface \<Rightarrow> 'sz HpipmInterface" where
  "resize sz h = h\<lparr>ocpSize' := sz, requests := requests h @ [Resize sz]\<rparr>"

text \<open>The result of a node transcription (\<^verbatim>\<open>multiple_shooting::Transcription\<close>).\<close>

record 'q Transcription =
  performance :: PerformanceIndex
  dynamics :: VectorFunctionLinearApproximation
  cost :: 'q
  constraints :: VectorFunctionLinearApproximation
  constraintsProjection :: VectorFunctionLinearApproximation

text \<open>
  The members of \<^verbatim>\<open>MultipleShootingSolver\<close> that the modelled functions read or write. A
  member the source writes with a trailing underscore (\<^verbatim>\<open>settings_\<close>) is written here with
  a prime (\<open>settings'\<close>), since a name cannot end with an underscore.
  \<open>'q\<close> is the quadratic cost approximation, \<open>'con\<close> a cloned constraint provider, \<open>'sz\<close>
  the QP size description. The cloned dynamics, cost and penalty providers are reached
  through the worker id by the functions of the environment below. \<open>modeSchedule\<close> is the
  schedule \<^verbatim>\<open>getModeSchedule()\<close> of the solver base class returns.
\<close>

record ('q, 'con, 'sz) MultipleShootingSolver =
  settings' :: Settings
  hpipmInterface' :: "'sz HpipmInterface"
  constraintPtr' :: "'con option list"
  modeSchedule :: ModeSchedule
  primalSolution' :: PrimalSolution
  performanceIndeces' :: "PerformanceIndex list"
  totalNumIterations' :: nat
  dynamics' :: "VectorFunctionLinearApproximation list"
  cost' :: "'q list"
  constraints' :: "VectorFunctionLinearApproximation list"
  constraintsProjection' :: "VectorFunctionLinearApproximation list"

text \<open>
  The functions the solver calls that are not part of the sources: time discretization,
  interpolation, the controller's evaluation, the operating trajectories, the node
  transcription and evaluation of \<^verbatim>\<open>MultipleShootingTranscription\<close>, and the QP back-end.
  They are parameters of the model. The first argument of a node function is the id of the
  worker whose provider clones it uses. \<open>workerOfTask i\<close> is the worker whose increment of
  the shared atomic counter \<^verbatim>\<open>timeIndex\<close> returned \<open>i\<close>: every index is handed to exactly
  one worker, and a worker receives its indices in increasing order. The assignment is
  arbitrary; it is kept fixed over the parallel sections of a run.
\<close>

record ('q, 'con, 'sz) Env =
  timeDiscretizationWithEvents ::
    "scalar_t \<Rightarrow> scalar_t \<Rightarrow> scalar_t \<Rightarrow> scalar_array_t \<Rightarrow> AnnotatedTime list"
  getInterpolationTime :: "AnnotatedTime \<Rightarrow> scalar_t"
  getIntervalStart :: "AnnotatedTime \<Rightarrow> scalar_t"
  getIntervalEnd :: "AnnotatedTime \<Rightarrow> scalar_t"
  getIntervalDuration :: "AnnotatedTime \<Rightarrow> AnnotatedTime \<Rightarrow> scalar_t"
  interpolate :: "scalar_t \<Rightarrow> scalar_array_t \<Rightarrow> vector_array_t \<Rightarrow> vector_t"
  computeInput :: "Controller option \<Rightarrow> scalar_t \<Rightarrow> vector_t \<Rightarrow> vector_t"
  getSystemOperatingTrajectories ::
    "vector_t \<Rightarrow> scalar_t \<Rightarrow> scalar_t \<Rightarrow> scalar_array_t \<times> vector_array_t \<times> vector_array_t"
  setupIntermediateNode ::
    "nat \<Rightarrow> 'con option \<Rightarrow> bool \<Rightarrow> scalar_t \<Rightarrow> scalar_t \<Rightarrow> vector_t \<Rightarrow> vector_t \<Rightarrow> vector_t
      \<Rightarrow> 'q Transcription"
  setupEventNode :: "nat \<Rightarrow> scalar_t \<Rightarrow> vector_t \<Rightarrow> vector_t \<Rightarrow> 'q Transcription"
  setupTerminalNode :: "'con option \<Rightarrow> scalar_t \<Rightarrow> vector_t \<Rightarrow> 'q Transcription"
  computeIntermediatePerformance ::
    "nat \<Rightarrow> 'con option \<Rightarrow> scalar_t \<Rightarrow> scalar_t \<Rightarrow> vector_t \<Rightarrow> vector_t \<Rightarrow> vector_t
      \<Rightarrow> PerformanceIndex"
  computeEventPerformance :: "nat \<Rightarrow> scalar_t \<Rightarrow> vector_t \<Rightarrow> vector_t \<Rightarrow> PerformanceIndex"
  computeTerminalPerformance :: "'con option \<Rightarrow> scalar_t \<Rightarrow> vector_t \<Rightarrow> PerformanceIndex"
  workerOfTask :: "nat \<Rightarrow> nat"
  extractSizesFromProblem ::
    "VectorFunctionLinearApproximation list \<Rightarrow> 'q list
      \<Rightarrow> VectorFunctionLinearApproximation list option \<Rightarrow> 'sz"
  hpipmSolve ::
    "'sz HpipmInterface \<Rightarrow> vector_t \<Rightarrow> VectorFunctionLinearApproximation list \<Rightarrow> 'q list
      \<Rightarrow> VectorFunctionLinearApproximation list option
      \<Rightarrow> hpipm_status \<times> vector_array_t \<times> vector_array_t"
  getRiccatiFeedback ::
    "'sz HpipmInterface \<Rightarrow> VectorFunctionLinearApproximation \<Rightarrow> 'q \<Rightarrow> matrix_array_t"

datatype error = QPFailure | NoPerformanceLog


section \<open>Initialization of the trajectories\<close>

text \<open>
  \<^verbatim>\<open>initializeStateTrajectory\<close>: on the first iteration the initial state at every node,
  afterwards the initial state followed by the interpolated previous solution.
\<close>

definition initializeStateTrajectory ::
  "('q, 'con, 'sz) Env \<Rightarrow> ('q, 'con, 'sz) MultipleShootingSolver \<Rightarrow> vector_t
    \<Rightarrow> AnnotatedTime list \<Rightarrow> vector_array_t" where
  "initializeStateTrajectory env s initState timeDiscretization =
     (let trajectoryLength = length timeDiscretization in
      if totalNumIterations' s = 0 then replicate trajectoryLength initState
      else
        foldl (\<lambda>x i.
            let ti = getInterpolationTime env (timeDiscretization ! i) in
            x @ [interpolate env ti (timeTrajectory' (primalSolution' s))
                    (stateTrajectory' (primalSolution' s))])
          [initState] [1..<trajectoryLength])"

text \<open>
  \<^verbatim>\<open>initializeInputTrajectory\<close>: the previous controller where it is defined, the operating
  trajectories' first input elsewhere.
\<close>

definition initializeInputTrajectory ::
  "('q, 'con, 'sz) Env \<Rightarrow> ('q, 'con, 'sz) MultipleShootingSolver \<Rightarrow> AnnotatedTime list
    \<Rightarrow> vector_array_t \<Rightarrow> vector_array_t" where
  "initializeInputTrajectory env s timeDiscretization stateTrajectory =
     (let N = length timeDiscretization - 1;
          interpolateTill =
            (if totalNumIterations' s > 0 then last (timeTrajectory' (primalSolution' s))
             else time (hd timeDiscretization))
      in foldl (\<lambda>u i.
            let ti = getInterpolationTime env (timeDiscretization ! i) in
            if ti < interpolateTill
            then u @ [computeInput env (controllerPtr' (primalSolution' s)) ti (stateTrajectory ! i)]
            else
              (let tNext = getIntervalEnd env (timeDiscretization ! (i + 1));
                   inputArray =
                     snd (snd (getSystemOperatingTrajectories env (stateTrajectory ! i) ti tNext))
               in u @ [hd inputArray]))
          [] [0..<N])"

section \<open>Assembly of the quadratic subproblem and evaluation of the performance\<close>

text \<open>
  The parallel section. Worker \<open>w\<close> runs the task once: it takes the stages below \<open>N\<close>
  that the counter hands to it, in increasing order, then the terminal node if it is the
  worker that fetched \<open>N\<close>, and adds what it accumulated to \<^verbatim>\<open>performance[w]\<close>. The stage
  arrays are resized first and every slot is written by the one worker that takes the
  stage, so they are given as the lists of the stage results. With an empty grid \<open>N\<close> is
  \<open>-1\<close> in the source: no node is visited, and \<^verbatim>\<open>setupQuadraticSubproblem\<close> cannot resize its
  arrays; the model is meant for a grid with at least one node.
\<close>

definition workerStages :: "('q, 'con, 'sz) Env \<Rightarrow> nat \<Rightarrow> nat \<Rightarrow> nat list" where
  "workerStages env N workerId = filter (\<lambda>i. workerOfTask env i = workerId) [0..<N]"

definition runsTerminal :: "('q, 'con, 'sz) Env \<Rightarrow> AnnotatedTime list \<Rightarrow> nat \<Rightarrow> bool" where
  "runsTerminal env nodes workerId \<longleftrightarrow>
     nodes \<noteq> [] \<and> workerOfTask env (length nodes - 1) = workerId"

definition setupStage ::
  "('q, 'con, 'sz) Env \<Rightarrow> ('q, 'con, 'sz) MultipleShootingSolver \<Rightarrow> AnnotatedTime list
    \<Rightarrow> vector_array_t \<Rightarrow> vector_array_t \<Rightarrow> nat \<Rightarrow> 'q Transcription" where
  "setupStage env s nodes x u i =
     (let workerId = workerOfTask env i;
          constraintPtr = constraintPtr' s ! workerId;
          projection = projectStateInputEqualityConstraints (settings' s)
      in if event (nodes ! i) = PreEvent
         then
           (setupEventNode env workerId (time (nodes ! i)) (x ! i) (x ! (i + 1)))
             \<lparr>constraintsProjection := Zero 0 (length (x ! i)) 0\<rparr>
         else
           (let ti = getIntervalStart env (nodes ! i);
                dt = getIntervalDuration env (nodes ! i) (nodes ! (i + 1))
            in setupIntermediateNode env workerId constraintPtr projection ti dt
                 (x ! i) (x ! (i + 1)) (u ! i)))"

definition setupTerminal ::
  "('q, 'con, 'sz) Env \<Rightarrow> ('q, 'con, 'sz) MultipleShootingSolver \<Rightarrow> AnnotatedTime list
    \<Rightarrow> vector_array_t \<Rightarrow> 'q Transcription" where
  "setupTerminal env s nodes x =
     (let N = length nodes - 1;
          constraintPtr = constraintPtr' s ! workerOfTask env N;
          tN = getIntervalStart env (nodes ! N)
      in setupTerminalNode env constraintPtr tN (x ! N))"

definition performanceStage ::
  "('q, 'con, 'sz) Env \<Rightarrow> ('q, 'con, 'sz) MultipleShootingSolver \<Rightarrow> AnnotatedTime list
    \<Rightarrow> vector_array_t \<Rightarrow> vector_array_t \<Rightarrow> nat \<Rightarrow> PerformanceIndex" where
  "performanceStage env s nodes x u i =
     (let workerId = workerOfTask env i;
          constraintPtr = constraintPtr' s ! workerId
      in if event (nodes ! i) = PreEvent
         then computeEventPerformance env workerId (time (nodes ! i)) (x ! i) (x ! (i + 1))
         else
           (let ti = getIntervalStart env (nodes ! i);
                dt = getIntervalDuration env (nodes ! i) (nodes ! (i + 1))
            in computeIntermediatePerformance env workerId constraintPtr ti dt
                 (x ! i) (x ! (i + 1)) (u ! i)))"

definition performanceTerminal ::
  "('q, 'con, 'sz) Env \<Rightarrow> ('q, 'con, 'sz) MultipleShootingSolver \<Rightarrow> AnnotatedTime list
    \<Rightarrow> vector_array_t \<Rightarrow> PerformanceIndex" where
  "performanceTerminal env s nodes x =
     (let N = length nodes - 1;
          constraintPtr = constraintPtr' s ! workerOfTask env N;
          tN = getIntervalStart env (nodes ! N)
      in computeTerminalPerformance env constraintPtr tN (x ! N))"

text \<open>
  \<open>parallelPerformance\<close> is the vector \<^verbatim>\<open>performance\<close> (below \<open>performanceVec\<close>) when
  \<^verbatim>\<open>runParallel\<close> has returned, for the per-stage and terminal results \<open>stage\<close> and
  \<open>terminal\<close>.
\<close>

definition workerPerformance ::
  "('q, 'con, 'sz) Env \<Rightarrow> AnnotatedTime list \<Rightarrow> (nat \<Rightarrow> PerformanceIndex) \<Rightarrow> PerformanceIndex
    \<Rightarrow> nat \<Rightarrow> PerformanceIndex" where
  "workerPerformance env nodes stage terminal workerId =
     (let N = length nodes - 1;
          acc = foldl (\<lambda>p i. perf_add p (stage i)) PerformanceIndex_default
                  (workerStages env N workerId)
      in if runsTerminal env nodes workerId then perf_add acc terminal else acc)"

definition parallelPerformance ::
  "('q, 'con, 'sz) Env \<Rightarrow> ('q, 'con, 'sz) MultipleShootingSolver \<Rightarrow> AnnotatedTime list
    \<Rightarrow> (nat \<Rightarrow> PerformanceIndex) \<Rightarrow> PerformanceIndex \<Rightarrow> PerformanceIndex list" where
  "parallelPerformance env s nodes stage terminal =
     map (\<lambda>workerId.
            perf_add PerformanceIndex_default (workerPerformance env nodes stage terminal workerId))
       [0..<nThreads (settings' s)]"

text \<open>
  The closing lines of \<^verbatim>\<open>setupQuadraticSubproblem\<close> and of \<^verbatim>\<open>computePerformance\<close>, which
  are the same: account for the initial state in the first worker's entry, sum the
  entries from the left, and set the merit.
\<close>

definition sumPerformance ::
  "vector_t \<Rightarrow> vector_array_t \<Rightarrow> PerformanceIndex list \<Rightarrow> PerformanceIndex" where
  "sumPerformance initState x performanceVec =
     (let front = (hd performanceVec)
            \<lparr>stateEqConstraintISE :=
               stateEqConstraintISE (hd performanceVec) + squaredNorm (vec_sub initState (hd x))\<rparr>;
          totalPerformance = foldl perf_add front (tl performanceVec)
      in totalPerformance
           \<lparr>merit := totalCost totalPerformance + inequalityConstraintPenalty totalPerformance\<rparr>)"

definition setupQuadraticSubproblem ::
  "('q, 'con, 'sz) Env \<Rightarrow> ('q, 'con, 'sz) MultipleShootingSolver \<Rightarrow> AnnotatedTime list
    \<Rightarrow> vector_t \<Rightarrow> vector_array_t \<Rightarrow> vector_array_t
    \<Rightarrow> PerformanceIndex \<times> ('q, 'con, 'sz) MultipleShootingSolver" where
  "setupQuadraticSubproblem env s nodes initState x u =
     (let N = length nodes - 1;
          stage = setupStage env s nodes x u;
          terminal = setupTerminal env s nodes x;
          performanceVec = parallelPerformance env s nodes (\<lambda>i. performance (stage i))
                             (performance terminal);
          s' = s\<lparr>dynamics' := map (\<lambda>i. dynamics (stage i)) [0..<N],
                 cost' := map (\<lambda>i. cost (stage i)) [0..<N] @ [cost terminal],
                 constraints' := map (\<lambda>i. constraints (stage i)) [0..<N] @ [constraints terminal],
                 constraintsProjection' := map (\<lambda>i. constraintsProjection (stage i)) [0..<N]\<rparr>
      in (sumPerformance initState x performanceVec, s'))"

definition computePerformance ::
  "('q, 'con, 'sz) Env \<Rightarrow> ('q, 'con, 'sz) MultipleShootingSolver \<Rightarrow> AnnotatedTime list
    \<Rightarrow> vector_t \<Rightarrow> vector_array_t \<Rightarrow> vector_array_t \<Rightarrow> PerformanceIndex" where
  "computePerformance env s nodes initState x u =
     sumPerformance initState x
       (parallelPerformance env s nodes (performanceStage env s nodes x u)
          (performanceTerminal env s nodes x))"


section \<open>Solution of the quadratic subproblem\<close>

definition solve ::
  "('q, 'con, 'sz) Env \<Rightarrow> vector_t \<Rightarrow> VectorFunctionLinearApproximation list \<Rightarrow> 'q list
    \<Rightarrow> VectorFunctionLinearApproximation list option \<Rightarrow> 'sz HpipmInterface
    \<Rightarrow> (hpipm_status \<times> vector_array_t \<times> vector_array_t) \<times> 'sz HpipmInterface" where
  "solve env delta_x0 dyn cst con h =
     (hpipmSolve env h delta_x0 dyn cst con, h\<lparr>requests := requests h @ [Solve delta_x0 con]\<rparr>)"

text \<open>The first statement of \<^verbatim>\<open>getOCPSolution\<close>: resize and solve, in one of two modes.\<close>

definition solveQP ::
  "('q, 'con, 'sz) Env \<Rightarrow> ('q, 'con, 'sz) MultipleShootingSolver \<Rightarrow> vector_t
    \<Rightarrow> (hpipm_status \<times> vector_array_t \<times> vector_array_t) \<times> 'sz HpipmInterface" where
  "solveQP env s delta_x0 =
     (if hd (constraintPtr' s) \<noteq> None \<and> \<not> projectStateInputEqualityConstraints (settings' s)
      then
        solve env delta_x0 (dynamics' s) (cost' s) (Some (constraints' s))
          (resize (extractSizesFromProblem env (dynamics' s) (cost' s) (Some (constraints' s)))
             (hpipmInterface' s))
      else
        solve env delta_x0 (dynamics' s) (cost' s) None
          (resize (extractSizesFromProblem env (dynamics' s) (cost' s) None)
             (hpipmInterface' s)))"

text \<open>The loop that maps the reduced input steps back, updating \<^verbatim>\<open>deltaUSol\<close> in place.\<close>

definition remapStage ::
  "VectorFunctionLinearApproximation list \<Rightarrow> vector_array_t \<Rightarrow> vector_array_t \<Rightarrow> nat
    \<Rightarrow> vector_array_t" where
  "remapStage proj deltaXSol deltaUSol i =
     (if length (f (proj ! i)) > 0
      then
        (let tmp = mat_vec (dfdu (proj ! i)) (deltaUSol ! i);
             deltaU1 = deltaUSol[i := vec_add tmp (f (proj ! i))]
         in deltaU1[i := vec_add (deltaU1 ! i) (mat_vec (dfdx (proj ! i)) (deltaXSol ! i))])
      else deltaUSol)"

definition remapDeltaU ::
  "VectorFunctionLinearApproximation list \<Rightarrow> vector_array_t \<Rightarrow> vector_array_t
    \<Rightarrow> vector_array_t" where
  "remapDeltaU proj deltaXSol deltaUSol =
     foldl (remapStage proj deltaXSol) deltaUSol [0..<length deltaUSol]"

definition getOCPSolution ::
  "('q, 'con, 'sz) Env \<Rightarrow> ('q, 'con, 'sz) MultipleShootingSolver \<Rightarrow> vector_t
    \<Rightarrow> (error \<times> ('q, 'con, 'sz) MultipleShootingSolver)
        + ((vector_array_t \<times> vector_array_t) \<times> ('q, 'con, 'sz) MultipleShootingSolver)" where
  "getOCPSolution env s delta_x0 =
     (case solveQP env s delta_x0 of
        ((status, deltaXSol, deltaUSol), h) \<Rightarrow>
          (let s1 = s\<lparr>hpipmInterface' := h\<rparr> in
           if status \<noteq> SUCCESS then Inl (QPFailure, s1)
           else if projectStateInputEqualityConstraints (settings' s)
           then Inr ((deltaXSol, remapDeltaU (constraintsProjection' s) deltaXSol deltaUSol), s1)
           else Inr ((deltaXSol, deltaUSol), s1)))"

section \<open>Filter line search\<close>

definition trajectoryNorm :: "vector_array_t \<Rightarrow> scalar_t" where
  "trajectoryNorm v = sqrt (foldl (\<lambda>norm vi. norm + squaredNorm vi) 0 v)"

definition constraintViolation :: "PerformanceIndex \<Rightarrow> scalar_t" where
  "constraintViolation p =
     sqrt (stateEqConstraintISE p + stateInputEqConstraintISE p + inequalityConstraintISE p)"

text \<open>The lambda \<^verbatim>\<open>stepAccepted\<close> of \<^verbatim>\<open>takeStep\<close>, with what it captures as arguments.\<close>

definition stepAccepted :: "Settings \<Rightarrow> PerformanceIndex \<Rightarrow> PerformanceIndex \<Rightarrow> bool" where
  "stepAccepted st baseline performanceNew =
     (let baselineConstraintViolation = constraintViolation baseline;
          newConstraintViolation = constraintViolation performanceNew
      in if newConstraintViolation > g_max st then False
         else if newConstraintViolation < g_min st then merit performanceNew < merit baseline
         else
           merit performanceNew < merit baseline - gamma_c st * baselineConstraintViolation \<or>
           newConstraintViolation < (1 - gamma_c st) * baselineConstraintViolation)"

definition stepSizeBelowTol ::
  "Settings \<Rightarrow> vector_array_t \<Rightarrow> vector_array_t \<Rightarrow> scalar_t \<Rightarrow> bool" where
  "stepSizeBelowTol st dx du alpha \<longleftrightarrow>
     alpha * trajectoryNorm du < deltaTol st \<and> alpha * trajectoryNorm dx < deltaTol st"

definition improvementBelowTol :: "Settings \<Rightarrow> PerformanceIndex \<Rightarrow> PerformanceIndex \<Rightarrow> bool" where
  "improvementBelowTol st baseline performanceNew \<longleftrightarrow>
     \<bar>merit baseline - merit performanceNew\<bar> < costTol st \<and>
     constraintViolation performanceNew < g_min st"

text \<open>
  The two loops that compute the step, writing into \<^verbatim>\<open>uNew\<close> and \<^verbatim>\<open>xNew\<close>. An entry of
  \<^verbatim>\<open>uNew\<close> is written only where the input step is not empty.
\<close>

definition stepU ::
  "scalar_t \<Rightarrow> vector_array_t \<Rightarrow> vector_array_t \<Rightarrow> vector_array_t \<Rightarrow> vector_array_t" where
  "stepU alpha u du uNew =
     foldl (\<lambda>acc i. if length (du ! i) > 0
                     then acc[i := vec_add (u ! i) (vec_scale alpha (du ! i))] else acc)
       uNew [0..<length u]"

definition stepX ::
  "scalar_t \<Rightarrow> vector_array_t \<Rightarrow> vector_array_t \<Rightarrow> vector_array_t \<Rightarrow> vector_array_t" where
  "stepX alpha x dx xNew =
     foldl (\<lambda>acc i. acc[i := vec_add (x ! i) (vec_scale alpha (dx ! i))]) xNew [0..<length x]"

text \<open>
  The do-while loop of \<^verbatim>\<open>takeStep\<close>. It need not end (a decay factor of one never reaches
  \<^verbatim>\<open>alpha_min\<close>), so the result is optional: \<open>None\<close> when the loop runs forever. A result is
  the returned flag with the trajectories \<^verbatim>\<open>x\<close> and \<^verbatim>\<open>u\<close> as the call leaves them.
\<close>

partial_function (option) takeStepLoop ::
  "('q, 'con, 'sz) Env \<Rightarrow> ('q, 'con, 'sz) MultipleShootingSolver \<Rightarrow> PerformanceIndex
    \<Rightarrow> AnnotatedTime list \<Rightarrow> vector_t \<Rightarrow> vector_array_t \<Rightarrow> vector_array_t
    \<Rightarrow> vector_array_t \<Rightarrow> vector_array_t \<Rightarrow> scalar_t \<Rightarrow> vector_array_t \<Rightarrow> vector_array_t
    \<Rightarrow> (bool \<times> vector_array_t \<times> vector_array_t) option" where
  "takeStepLoop env s baseline timeDiscretization initState dx du x u alpha xNew uNew =
     (let uNew1 = stepU alpha u du uNew;
          xNew1 = stepX alpha x dx xNew;
          performanceNew = computePerformance env s timeDiscretization initState xNew1 uNew1
      in if stepAccepted (settings' s) baseline performanceNew
         then Some (stepSizeBelowTol (settings' s) dx du alpha \<or>
                    improvementBelowTol (settings' s) baseline performanceNew, xNew1, uNew1)
         else if stepSizeBelowTol (settings' s) dx du alpha then Some (True, x, u)
         else
           (let alpha1 = alpha * alpha_decay (settings' s) in
            if alpha1 > alpha_min (settings' s)
            then takeStepLoop env s baseline timeDiscretization initState dx du x u alpha1
                   xNew1 uNew1
            else Some (True, x, u)))"

definition takeStep ::
  "('q, 'con, 'sz) Env \<Rightarrow> ('q, 'con, 'sz) MultipleShootingSolver \<Rightarrow> PerformanceIndex
    \<Rightarrow> AnnotatedTime list \<Rightarrow> vector_t \<Rightarrow> vector_array_t \<Rightarrow> vector_array_t
    \<Rightarrow> vector_array_t \<Rightarrow> vector_array_t
    \<Rightarrow> (bool \<times> vector_array_t \<times> vector_array_t) option" where
  "takeStep env s baseline timeDiscretization initState dx du x u =
     takeStepLoop env s baseline timeDiscretization initState dx du x u 1
       (replicate (length x) []) (replicate (length u) [])"


section \<open>Construction of the primal solution\<close>

text \<open>
  One pass of the loop that computes the feedback policy: the state is \<^verbatim>\<open>uff\<close>,
  \<^verbatim>\<open>controllerGain\<close> and \<^verbatim>\<open>constraintsProjection_\<close>. Where the projection is present its
  \<^verbatim>\<open>dfdx\<close> is moved into the gain, which leaves an empty matrix behind.
\<close>

definition feedbackStage ::
  "AnnotatedTime list \<Rightarrow> vector_array_t \<Rightarrow> vector_array_t \<Rightarrow> matrix_array_t
    \<Rightarrow> vector_array_t \<times> matrix_array_t \<times> VectorFunctionLinearApproximation list \<Rightarrow> nat
    \<Rightarrow> vector_array_t \<times> matrix_array_t \<times> VectorFunctionLinearApproximation list" where
  "feedbackStage nodes x u KMatrices acc i =
     (case acc of (uff, controllerGain, proj) \<Rightarrow>
        if event (nodes ! i) = PreEvent \<and> uff \<noteq> []
        then (uff @ [last uff], controllerGain @ [last controllerGain], proj)
        else
          (let gain =
                 (if length (f (proj ! i)) > 0
                  then mat_add (dfdx (proj ! i)) (mat_mul (dfdu (proj ! i)) (KMatrices ! i))
                  else KMatrices ! i);
               proj1 =
                 (if length (f (proj ! i)) > 0 then proj[i := (proj ! i)\<lparr>dfdx := []\<rparr>] else proj)
           in (uff @ [vec_sub (u ! i) (mat_vec gain (x ! i))], controllerGain @ [gain], proj1)))"

definition feedbackPolicy ::
  "AnnotatedTime list \<Rightarrow> vector_array_t \<Rightarrow> vector_array_t \<Rightarrow> matrix_array_t
    \<Rightarrow> VectorFunctionLinearApproximation list
    \<Rightarrow> vector_array_t \<times> matrix_array_t \<times> VectorFunctionLinearApproximation list" where
  "feedbackPolicy nodes x u KMatrices proj =
     (case foldl (feedbackStage nodes x u KMatrices) ([], [], proj) [0..<length nodes - 1] of
        (uff, controllerGain, proj1) \<Rightarrow>
          (uff @ [last uff], controllerGain @ [last controllerGain], proj1))"

text \<open>
  The loop that fills the time trajectory and repeats the previous input at a pre-event
  node; the state is the time trajectory and the input trajectory.
\<close>

definition nominalStage ::
  "AnnotatedTime list \<Rightarrow> scalar_array_t \<times> vector_array_t \<Rightarrow> nat
    \<Rightarrow> scalar_array_t \<times> vector_array_t" where
  "nominalStage nodes acc i =
     (case acc of (timeTrajectory, inputTrajectory) \<Rightarrow>
        (timeTrajectory @ [time (nodes ! i)],
         if event (nodes ! i) = PreEvent \<and> i > 0
         then inputTrajectory[i := inputTrajectory ! (i - 1)]
         else inputTrajectory))"

text \<open>
  \<^verbatim>\<open>setPrimalSolution\<close>. The old solution is cleared first and every member of the new one
  is assigned, so the result is written as one record.
\<close>

definition setPrimalSolution ::
  "('q, 'con, 'sz) Env \<Rightarrow> ('q, 'con, 'sz) MultipleShootingSolver \<Rightarrow> AnnotatedTime list
    \<Rightarrow> vector_array_t \<Rightarrow> vector_array_t \<Rightarrow> ('q, 'con, 'sz) MultipleShootingSolver" where
  "setPrimalSolution env s nodes x u =
     (let feedback =
            (if useFeedbackPolicy (settings' s)
             then
               Some (feedbackPolicy nodes x u
                 (getRiccatiFeedback env (hpipmInterface' s) (dynamics' s ! 0) (cost' s ! 0))
                 (constraintsProjection' s))
             else None);
          u1 = u @ [last u];
          nominal = foldl (nominalStage nodes) ([], u1) [0..<length nodes];
          controller =
            (case feedback of
               Some (uff, controllerGain, proj1) \<Rightarrow> LinearController (fst nominal) uff controllerGain
             | None \<Rightarrow> FeedforwardController (fst nominal) (snd nominal))
      in s\<lparr>constraintsProjection' :=
               (case feedback of Some (uff, controllerGain, proj1) \<Rightarrow> proj1
                | None \<Rightarrow> constraintsProjection' s),
            primalSolution' :=
              \<lparr>timeTrajectory' = fst nominal,
               stateTrajectory' = x,
               inputTrajectory' = snd nominal,
               controllerPtr' = Some controller,
               modeSchedule' = modeSchedule s\<rparr>\<rparr>)"

text \<open>
  Modelled from the spec: \<^verbatim>\<open>LinearController\<close> is outside the sources. At grid node \<open>i\<close> it
  evaluates \<open>uff(t) + K(t) x\<close> with the stored pair of that node.
\<close>

definition linearControllerAtNode :: "Controller \<Rightarrow> nat \<Rightarrow> vector_t \<Rightarrow> vector_t" where
  "linearControllerAtNode c i x =
     (case c of
        LinearController ts uff gain \<Rightarrow> vec_add (uff ! i) (mat_vec (gain ! i) x)
      | FeedforwardController ts us \<Rightarrow> us ! i)"

section \<open>The SQP loop\<close>

text \<open>
  One pass of the loop of \<^verbatim>\<open>runImpl\<close>. An exception leaves with the solver as it is when
  thrown; otherwise the pass yields the convergence flag, the solver and the trajectories.
\<close>

definition sqpIterate ::
  "('q, 'con, 'sz) Env \<Rightarrow> vector_t \<Rightarrow> AnnotatedTime list
    \<Rightarrow> ('q, 'con, 'sz) MultipleShootingSolver \<Rightarrow> vector_array_t \<Rightarrow> vector_array_t
    \<Rightarrow> ((error \<times> ('q, 'con, 'sz) MultipleShootingSolver)
         + (bool \<times> ('q, 'con, 'sz) MultipleShootingSolver \<times> vector_array_t \<times> vector_array_t))
        option" where
  "sqpIterate env initState timeDiscretization s x u =
     (case setupQuadraticSubproblem env s timeDiscretization initState x u of
        (p, s1) \<Rightarrow>
          (let s2 = s1\<lparr>performanceIndeces' := performanceIndeces' s1 @ [p]\<rparr>;
               delta_x0 = vec_sub initState (x ! 0)
           in case getOCPSolution env s2 delta_x0 of
                Inl failure \<Rightarrow> Some (Inl failure)
              | Inr (deltaSolution, s3) \<Rightarrow>
                  (case takeStep env s3 (last (performanceIndeces' s3)) timeDiscretization
                          initState (fst deltaSolution) (snd deltaSolution) x u of
                     None \<Rightarrow> None
                   | Some (converged, x1, u1) \<Rightarrow>
                       Some (Inr (converged,
                         s3\<lparr>totalNumIterations' := totalNumIterations' s3 + 1\<rparr>, x1, u1)))))"

text \<open>
  The loop, counted by the iterations that remain: it starts with \<^verbatim>\<open>sqpIteration\<close> of them,
  and the settings do not change while it runs.
\<close>

fun sqpLoop ::
  "('q, 'con, 'sz) Env \<Rightarrow> vector_t \<Rightarrow> AnnotatedTime list \<Rightarrow> nat
    \<Rightarrow> ('q, 'con, 'sz) MultipleShootingSolver \<Rightarrow> vector_array_t \<Rightarrow> vector_array_t
    \<Rightarrow> ((error \<times> ('q, 'con, 'sz) MultipleShootingSolver)
         + (('q, 'con, 'sz) MultipleShootingSolver \<times> vector_array_t \<times> vector_array_t))
        option" where
  "sqpLoop env initState timeDiscretization 0 s x u = Some (Inr (s, x, u))"
| "sqpLoop env initState timeDiscretization (Suc n) s x u =
     (case sqpIterate env initState timeDiscretization s x u of
        None \<Rightarrow> None
      | Some (Inl failure) \<Rightarrow> Some (Inl failure)
      | Some (Inr (converged, s1, x1, u1)) \<Rightarrow>
          if converged then Some (Inr (s1, x1, u1))
          else sqpLoop env initState timeDiscretization n s1 x1 u1)"

text \<open>
  \<^verbatim>\<open>runImpl\<close>: \<open>None\<close> when a line search does not return, \<open>Inl\<close> with the solver as the
  exception leaves it, \<open>Inr\<close> with the solver holding the new primal solution.
\<close>

definition runImpl ::
  "('q, 'con, 'sz) Env \<Rightarrow> ('q, 'con, 'sz) MultipleShootingSolver \<Rightarrow> scalar_t \<Rightarrow> vector_t
    \<Rightarrow> scalar_t \<Rightarrow> scalar_array_t
    \<Rightarrow> ((error \<times> ('q, 'con, 'sz) MultipleShootingSolver)
         + ('q, 'con, 'sz) MultipleShootingSolver) option" where
  "runImpl env s initTime initState finalTime partitioningTimes =
     (let timeDiscretization =
            timeDiscretizationWithEvents env initTime finalTime (dt (settings' s))
              (eventTimes (modeSchedule s));
          x = initializeStateTrajectory env s initState timeDiscretization;
          u = initializeInputTrajectory env s timeDiscretization x;
          s0 = s\<lparr>performanceIndeces' := []\<rparr>
      in case sqpLoop env initState timeDiscretization (sqpIteration (settings' s)) s0 x u of
           None \<Rightarrow> None
         | Some (Inl failure) \<Rightarrow> Some (Inl failure)
         | Some (Inr (s1, x1, u1)) \<Rightarrow>
             Some (Inr (setPrimalSolution env s1 timeDiscretization x1 u1)))"

definition getIterationsLog ::
  "('q, 'con, 'sz) MultipleShootingSolver \<Rightarrow> error + PerformanceIndex list" where
  "getIterationsLog s =
     (if performanceIndeces' s = [] then Inl NoPerformanceLog else Inr (performanceIndeces' s))"

text \<open>
  The states of the loop that a run passes through: the state the loop starts in, and the
  state after a pass that neither threw nor converged.
\<close>

inductive sqpReaches ::
  "('q, 'con, 'sz) Env \<Rightarrow> vector_t \<Rightarrow> AnnotatedTime list
    \<Rightarrow> nat \<times> ('q, 'con, 'sz) MultipleShootingSolver \<times> vector_array_t \<times> vector_array_t
    \<Rightarrow> nat \<times> ('q, 'con, 'sz) MultipleShootingSolver \<times> vector_array_t \<times> vector_array_t
    \<Rightarrow> bool"
  for env :: "('q, 'con, 'sz) Env" and initState :: vector_t
    and timeDiscretization :: "AnnotatedTime list" where
  start: "sqpReaches env initState timeDiscretization c c"
| pass: "sqpReaches env initState timeDiscretization c (Suc n, s, x, u) \<Longrightarrow>
         sqpIterate env initState timeDiscretization s x u = Some (Inr (False, s1, x1, u1)) \<Longrightarrow>
         sqpReaches env initState timeDiscretization c (n, s1, x1, u1)"


section \<open>Notions used in the statements\<close>

text \<open>The sum under the root of the constraint violation.\<close>

definition violationISE :: "PerformanceIndex \<Rightarrow> scalar_t" where
  "violationISE p =
     stateEqConstraintISE p + stateInputEqConstraintISE p + inequalityConstraintISE p"

text \<open>
  The input step of stage \<open>i\<close> after the loop of \<open>remapDeltaU\<close>, in the order the source
  adds the three terms.
\<close>

definition remapped ::
  "VectorFunctionLinearApproximation list \<Rightarrow> vector_array_t \<Rightarrow> vector_array_t \<Rightarrow> nat \<Rightarrow> vector_t" where
  "remapped proj dX dU i = (if length (f (proj ! i)) > 0
      then vec_add (vec_add (mat_vec (dfdu (proj ! i)) (dU ! i)) (f (proj ! i)))
             (mat_vec (dfdx (proj ! i)) (dX ! i))
      else dU ! i)"


text \<open>The solver as a call leaves it, whether it returns or throws.\<close>

definition solverAfter ::
  "(error \<times> ('q, 'con, 'sz) MultipleShootingSolver)
     + ('a \<times> ('q, 'con, 'sz) MultipleShootingSolver) \<Rightarrow> ('q, 'con, 'sz) MultipleShootingSolver" where
  "solverAfter r = (case r of Inl (e, s1) \<Rightarrow> s1 | Inr (sol, s1) \<Rightarrow> s1)"


text \<open>
  The gain \<open>setPrimalSolution\<close> stores at a stage where it computes one: the Riccati gain, or
  with the projection present \<open>dfdx + dfdu * K\<close>.
\<close>

definition fullGain ::
  "VectorFunctionLinearApproximation list \<Rightarrow> matrix_array_t \<Rightarrow> nat \<Rightarrow> matrix_t" where
  "fullGain proj KMatrices i =
     (if length (f (proj ! i)) > 0
      then mat_add (dfdx (proj ! i)) (mat_mul (dfdu (proj ! i)) (KMatrices ! i))
      else KMatrices ! i)"


text \<open>
  A trial of the line search with step size \<open>alpha\<close>: the candidate trajectories that the two
  loops write into fresh buffers, their performance, whether the step is accepted, whether
  the loop goes on to a smaller step, and what \<open>takeStep\<close> returns when it stops at this trial.
\<close>

definition trialState :: "scalar_t \<Rightarrow> vector_array_t \<Rightarrow> vector_array_t \<Rightarrow> vector_array_t" where
  "trialState alpha x dx = stepX alpha x dx (replicate (length x) [])"

definition trialInput :: "scalar_t \<Rightarrow> vector_array_t \<Rightarrow> vector_array_t \<Rightarrow> vector_array_t" where
  "trialInput alpha u du = stepU alpha u du (replicate (length u) [])"

text \<open>
  The candidate input in the words of the specification of the line search, kept apart
  from \<open>trialInput\<close> to be compared with it: \<open>u + alpha * du\<close>, where a stage whose input step
  is empty keeps its input.
\<close>

definition specTrialInput :: "scalar_t \<Rightarrow> vector_array_t \<Rightarrow> vector_array_t \<Rightarrow> vector_array_t" where
  "specTrialInput alpha u du =
     map2 (\<lambda>ui dui. if dui = [] then ui else vec_add ui (vec_scale alpha dui)) u du"

definition trialPerformance ::
  "('q, 'con, 'sz) Env \<Rightarrow> ('q, 'con, 'sz) MultipleShootingSolver \<Rightarrow> AnnotatedTime list
    \<Rightarrow> vector_t \<Rightarrow> vector_array_t \<Rightarrow> vector_array_t \<Rightarrow> vector_array_t \<Rightarrow> vector_array_t
    \<Rightarrow> scalar_t \<Rightarrow> PerformanceIndex" where
  "trialPerformance env s timeDiscretization initState dx du x u alpha =
     computePerformance env s timeDiscretization initState
       (trialState alpha x dx) (trialInput alpha u du)"

definition trialAccepted ::
  "('q, 'con, 'sz) Env \<Rightarrow> ('q, 'con, 'sz) MultipleShootingSolver \<Rightarrow> PerformanceIndex
    \<Rightarrow> AnnotatedTime list \<Rightarrow> vector_t \<Rightarrow> vector_array_t \<Rightarrow> vector_array_t
    \<Rightarrow> vector_array_t \<Rightarrow> vector_array_t \<Rightarrow> scalar_t \<Rightarrow> bool" where
  "trialAccepted env s baseline timeDiscretization initState dx du x u alpha \<longleftrightarrow>
     stepAccepted (settings' s) baseline
       (trialPerformance env s timeDiscretization initState dx du x u alpha)"

definition trialContinues ::
  "('q, 'con, 'sz) Env \<Rightarrow> ('q, 'con, 'sz) MultipleShootingSolver \<Rightarrow> PerformanceIndex
    \<Rightarrow> AnnotatedTime list \<Rightarrow> vector_t \<Rightarrow> vector_array_t \<Rightarrow> vector_array_t
    \<Rightarrow> vector_array_t \<Rightarrow> vector_array_t \<Rightarrow> scalar_t \<Rightarrow> bool" where
  "trialContinues env s baseline timeDiscretization initState dx du x u alpha \<longleftrightarrow>
     \<not> trialAccepted env s baseline timeDiscretization initState dx du x u alpha \<and>
     \<not> stepSizeBelowTol (settings' s) dx du alpha \<and>
     alpha_min (settings' s) < alpha * alpha_decay (settings' s)"

definition trialResult ::
  "('q, 'con, 'sz) Env \<Rightarrow> ('q, 'con, 'sz) MultipleShootingSolver \<Rightarrow> PerformanceIndex
    \<Rightarrow> AnnotatedTime list \<Rightarrow> vector_t \<Rightarrow> vector_array_t \<Rightarrow> vector_array_t
    \<Rightarrow> vector_array_t \<Rightarrow> vector_array_t \<Rightarrow> scalar_t
    \<Rightarrow> bool \<times> vector_array_t \<times> vector_array_t" where
  "trialResult env s baseline timeDiscretization initState dx du x u alpha =
     (if trialAccepted env s baseline timeDiscretization initState dx du x u alpha
      then
        (stepSizeBelowTol (settings' s) dx du alpha \<or>
         improvementBelowTol (settings' s) baseline
           (trialPerformance env s timeDiscretization initState dx du x u alpha),
         trialState alpha x dx, trialInput alpha u du)
      else (True, x, u))"

text \<open>
  What the buffers \<open>xNew\<close> and \<open>uNew\<close> satisfy throughout the loop: they have the lengths of
  \<open>x\<close> and \<open>u\<close>, and an entry of \<open>uNew\<close> that is never written is still empty.
\<close>

definition buffersFit ::
  "vector_array_t \<Rightarrow> vector_array_t \<Rightarrow> vector_array_t \<Rightarrow> vector_array_t \<Rightarrow> vector_array_t
    \<Rightarrow> bool" where
  "buffersFit du x u xNew uNew \<longleftrightarrow>
     length xNew = length x \<and> length uNew = length u \<and>
     (\<forall>i<length u. length (du ! i) = 0 \<longrightarrow> uNew ! i = [])"


section \<open>Example instances\<close>

text \<open>
  A small instance on which the theorems below are exercised: a grid of two nodes, one
  worker, scalar states and inputs, the dynamics \<open>x\<^sub>i\<^sub>+\<^sub>1 = x\<^sub>i + u\<^sub>i\<close>, the cost \<open>u\<^sup>2\<close>, no
  constraints, operating trajectories with the input \<open>-1\<close>, and a back-end that answers
  its first QP with unit state and input steps and fails on every later one.
\<close>

definition demoSettings :: Settings where
  "demoSettings =
     \<lparr>sqpIteration = 2, nThreads = 1, dt = 1, projectStateInputEqualityConstraints = False,
      useFeedbackPolicy = False, alpha_decay = 1 / 2, alpha_min = 1 / 4, gamma_c = 1 / 2,
      g_max = 2, g_min = 1, costTol = 1 / 8, deltaTol = 1 / 8\<rparr>"

definition demoPerformance :: "vector_t \<Rightarrow> vector_t \<Rightarrow> vector_t \<Rightarrow> PerformanceIndex" where
  "demoPerformance xi xNext ui =
     PerformanceIndex_default
       \<lparr>totalCost := squaredNorm ui,
        stateEqConstraintISE := squaredNorm (vec_sub xNext (vec_add xi ui))\<rparr>"

definition demoTranscription :: "PerformanceIndex \<Rightarrow> unit Transcription" where
  "demoTranscription p =
     \<lparr>performance = p, dynamics = Zero 1 1 1, cost = (), constraints = Zero 0 1 1,
      constraintsProjection = Zero 0 1 1\<rparr>"

definition demoEnv :: "(unit, unit, nat) Env" where
  "demoEnv =
     \<lparr>timeDiscretizationWithEvents =
        (\<lambda>t0 tf step events. [\<lparr>time = t0, event = Interior\<rparr>, \<lparr>time = tf, event = Interior\<rparr>]),
      getInterpolationTime = time,
      getIntervalStart = time,
      getIntervalEnd = time,
      getIntervalDuration = (\<lambda>a b. time b - time a),
      interpolate = (\<lambda>t ts xs. vec_add (vec_scale (1 - t) (hd xs)) (vec_scale t (last xs))),
      computeInput = (\<lambda>c t x. [0]),
      getSystemOperatingTrajectories = (\<lambda>x t0 t1. ([t0], [x], [[- 1]])),
      setupIntermediateNode =
        (\<lambda>w con proj t step xi xNext ui. demoTranscription (demoPerformance xi xNext ui)),
      setupEventNode = (\<lambda>w t xi xNext. demoTranscription PerformanceIndex_default),
      setupTerminalNode = (\<lambda>con t xN. demoTranscription PerformanceIndex_default),
      computeIntermediatePerformance = (\<lambda>w con t step xi xNext ui. demoPerformance xi xNext ui),
      computeEventPerformance = (\<lambda>w t xi xNext. PerformanceIndex_default),
      computeTerminalPerformance = (\<lambda>con t xN. PerformanceIndex_default),
      workerOfTask = (\<lambda>i. 0),
      extractSizesFromProblem = (\<lambda>dyn cst con. length dyn),
      hpipmSolve =
        (\<lambda>h delta_x0 dyn cst con.
           if length (requests h) \<le> 1
           then (SUCCESS, replicate (Suc (length dyn)) [1], replicate (length dyn) [1])
           else (FAILURE 1, [], [])),
      getRiccatiFeedback = (\<lambda>h dyn0 cost0. replicate (ocpSize' h) [[1]])\<rparr>"

definition demoSolver :: "(unit, unit, nat) MultipleShootingSolver" where
  "demoSolver =
     \<lparr>settings' = demoSettings,
      hpipmInterface' = \<lparr>ocpSize' = 0, requests = []\<rparr>,
      constraintPtr' = [None],
      modeSchedule = \<lparr>eventTimes = [], modeSequence = [0]\<rparr>,
      primalSolution' =
        \<lparr>timeTrajectory' = [], stateTrajectory' = [], inputTrajectory' = [],
         controllerPtr' = None, modeSchedule' = \<lparr>eventTimes = [], modeSequence = [0]\<rparr>\<rparr>,
      performanceIndeces' = [],
      totalNumIterations' = 0,
      dynamics' = [], cost' = [], constraints' = [], constraintsProjection' = []\<rparr>"

definition demoNodes :: "AnnotatedTime list" where
  "demoNodes = [\<lparr>time = 0, event = Interior\<rparr>, \<lparr>time = 1, event = Interior\<rparr>]"


definition demoBaseline :: PerformanceIndex where
  "demoBaseline =
     \<lparr>merit = 1 / 4, totalCost = 1 / 4, stateEqConstraintISE = 1, stateInputEqConstraintISE = 0,
      inequalityConstraintISE = 0, inequalityConstraintPenalty = 0\<rparr>"

text \<open>
  A solver with a constraint provider, the projection enabled, and two stages assembled:
  the projection is present at stage 0 and absent at stage 1.
\<close>

definition demoProjSolver :: "(unit, unit, nat) MultipleShootingSolver" where
  "demoProjSolver =
     demoSolver
       \<lparr>settings' := demoSettings\<lparr>projectStateInputEqualityConstraints := True\<rparr>,
        constraintPtr' := [Some ()],
        dynamics' := [Zero 1 1 1, Zero 1 1 1],
        cost' := [(), (), ()],
        constraints' := [Zero 0 1 1, Zero 0 1 1, Zero 0 1 0],
        constraintsProjection' := [\<lparr>f = [1], dfdx = [[2]], dfdu = [[3]]\<rparr>, Zero 0 1 0]\<rparr>"


text \<open>The same solver with the projection disabled.\<close>

definition demoConSolver :: "(unit, unit, nat) MultipleShootingSolver" where
  "demoConSolver = demoProjSolver\<lparr>settings' := demoSettings\<rparr>"


text \<open>A solver that has run before: one iteration counted and a primal solution stored.\<close>

definition demoWarmSolver :: "(unit, unit, nat) MultipleShootingSolver" where
  "demoWarmSolver =
     demoSolver
       \<lparr>totalNumIterations' := 1,
        primalSolution' :=
          \<lparr>timeTrajectory' = [0, 1], stateTrajectory' = [[2], [3]], inputTrajectory' = [[1], [1]],
           controllerPtr' = Some (FeedforwardController [0, 1] [[1], [1]]),
           modeSchedule' = \<lparr>eventTimes = [], modeSequence = [0]\<rparr>\<rparr>\<rparr>"


text \<open>A grid with an event at time 1/2: a pre-event node followed by a node at the same time.\<close>

definition demoEventNodes :: "AnnotatedTime list" where
  "demoEventNodes =
     [\<lparr>time = 0, event = Interior\<rparr>, \<lparr>time = 1 / 2, event = PreEvent\<rparr>,
      \<lparr>time = 1 / 2, event = Interior\<rparr>, \<lparr>time = 1, event = Interior\<rparr>]"


text \<open>
  A solver with the feedback policy enabled and three stages assembled on the grid with an
  event: the projection is present at stage 0 only.
\<close>

definition demoFeedbackSolver :: "(unit, unit, nat) MultipleShootingSolver" where
  "demoFeedbackSolver =
     demoSolver
       \<lparr>settings' := demoSettings\<lparr>useFeedbackPolicy := True\<rparr>,
        hpipmInterface' := \<lparr>ocpSize' = 3, requests = [Resize 3, Solve [0] None]\<rparr>,
        dynamics' := [Zero 1 1 1, Zero 1 1 0, Zero 1 1 1],
        cost' := [(), (), (), ()],
        constraintsProjection' := [\<lparr>f = [1], dfdx = [[2]], dfdu = [[3]]\<rparr>, Zero 0 1 0, Zero 0 1 1]\<rparr>"


text \<open>A performance whose cost and dynamics defect are both \<open>m\<close>.\<close>

definition demoBaselineAt :: "scalar_t \<Rightarrow> PerformanceIndex" where
  "demoBaselineAt m =
     \<lparr>merit = m, totalCost = m, stateEqConstraintISE = m, stateInputEqConstraintISE = 0,
      inequalityConstraintISE = 0, inequalityConstraintPenalty = 0\<rparr>"


text \<open>
  The example solver after the first assembly, and after a first pass of the SQP loop in
  which the step is accepted without convergence; \<open>demoGap\<close> is the performance at the
  trajectories that this pass leaves.
\<close>

definition demoAssembled :: "(unit, unit, nat) MultipleShootingSolver" where
  "demoAssembled =
     demoSolver
       \<lparr>dynamics' := [Zero 1 1 1], cost' := [(), ()],
        constraints' := [Zero 0 1 1, Zero 0 1 1],
        constraintsProjection' := [Zero 0 1 1]\<rparr>"

definition demoAfterPass :: "(unit, unit, nat) MultipleShootingSolver" where
  "demoAfterPass =
     demoAssembled
       \<lparr>performanceIndeces' := [demoBaselineAt 1],
        hpipmInterface' := \<lparr>ocpSize' = 1, requests = [Resize 1, Solve [0] None]\<rparr>,
        totalNumIterations' := 1\<rparr>"

definition demoGap :: PerformanceIndex where
  "demoGap =
     \<lparr>merit = 0, totalCost = 0, stateEqConstraintISE = 1, stateInputEqConstraintISE = 0,
      inequalityConstraintISE = 0, inequalityConstraintPenalty = 0\<rparr>"


text \<open>The example with two workers: worker 0 takes the stage, worker 1 the terminal node.\<close>

definition demoTwoWorkerEnv :: "(unit, unit, nat) Env" where
  "demoTwoWorkerEnv = demoEnv\<lparr>workerOfTask := (\<lambda>i. i mod 2)\<rparr>"

definition demoTwoWorkerSolver :: "(unit, unit, nat) MultipleShootingSolver" where
  "demoTwoWorkerSolver =
     demoSolver\<lparr>settings' := demoSettings\<lparr>nThreads := 2\<rparr>, constraintPtr' := [None, None]\<rparr>"

section \<open>Properties of the performance evaluation\<close>

lemma merit_sumPerformance:
  "merit (sumPerformance initState x pv) =
     totalCost (sumPerformance initState x pv) +
     inequalityConstraintPenalty (sumPerformance initState x pv)"
  by (simp add: sumPerformance_def Let_def)

lemmas demo_performance_defs =
  computePerformance_def sumPerformance_def parallelPerformance_def workerPerformance_def
  workerStages_def runsTerminal_def performanceStage_def performanceTerminal_def
  demoEnv_def demoSolver_def demoNodes_def demoSettings_def demoPerformance_def
  PerformanceIndex_default_def perf_add_def squaredNorm_def vec_sub_def vec_add_def Let_def

lemma demo_computePerformance_gap:
  "computePerformance demoEnv demoSolver demoNodes [0] [[0], [1]] [[0]] =
     \<lparr>merit = 0, totalCost = 0, stateEqConstraintISE = 1, stateInputEqConstraintISE = 0,
      inequalityConstraintISE = 0, inequalityConstraintPenalty = 0\<rparr>"
  by (simp add: demo_performance_defs)

lemma demo_computePerformance_rest:
  "computePerformance demoEnv demoSolver demoNodes [0] [[0], [0]] [[0]] =
     \<lparr>merit = 0, totalCost = 0, stateEqConstraintISE = 0, stateInputEqConstraintISE = 0,
      inequalityConstraintISE = 0, inequalityConstraintPenalty = 0\<rparr>"
  by (simp add: demo_performance_defs)

text \<open>The sum over the workers does not depend on the schedule.\<close>

lemma foldl_perf_add_field:
  assumes "\<And>a b. g (perf_add a b) = g a + (g b :: real)"
  shows "g (foldl perf_add a ps) = g a + sum_list (map g ps)"
  using assms by (induction ps arbitrary: a) (simp_all add: add.assoc)

lemma foldl_stage_field:
  assumes "\<And>a b. g (perf_add a b) = g a + (g b :: real)"
  shows "g (foldl (\<lambda>p i. perf_add p (stage i)) a is) = g a + sum_list (map (\<lambda>i. g (stage i)) is)"
  using assms by (induction "is" arbitrary: a) (simp_all add: add.assoc)

lemma sum_list_partition:
  assumes "\<forall>i<N. wo i < (nT::nat)"
  shows "sum_list (map (\<lambda>w. sum_list (map h (filter (\<lambda>i. wo i = w) [0..<N]))) [0..<nT]) =
         (sum_list (map h [0..<N]) :: real)"
proof -
  have "sum_list (map (\<lambda>w. sum_list (map h (filter (\<lambda>i. wo i = w) [0..<N]))) [0..<nT]) =
        (\<Sum>w = 0..<nT. \<Sum>i = 0..<N. if wo i = w then h i else 0)"
    by (simp add: sum_list_map_filter' interv_sum_list_conv_sum_set_nat)
  also have "\<dots> = (\<Sum>i = 0..<N. \<Sum>w = 0..<nT. if wo i = w then h i else 0)"
    by (rule sum.swap)
  also have "\<dots> = (\<Sum>i = 0..<N. h i)"
    using assms by (intro sum.cong refl) simp
  finally show ?thesis by (simp add: interv_sum_list_conv_sum_set_nat)
qed

lemma sum_list_terminal:
  assumes "k < (nT::nat)"
  shows "sum_list (map (\<lambda>w. if k = w then c else 0) [0..<nT]) = (c::real)"
  using assms by (simp add: interv_sum_list_conv_sum_set_nat)

lemma parallelPerformance_field:
  assumes add: "\<And>a b. g (perf_add a b) = g a + (g b :: real)"
    and zero: "g PerformanceIndex_default = 0"
    and ne: "nodes \<noteq> []"
    and wo: "\<forall>i<length nodes. workerOfTask env i < nThreads (settings' s)"
  shows "sum_list (map g (parallelPerformance env s nodes stage terminal)) =
         sum_list (map (\<lambda>i. g (stage i)) [0..<length nodes - 1]) + g terminal"
proof -
  let ?N = "length nodes - 1"
  let ?nT = "nThreads (settings' s)"
  have w: "g (perf_add PerformanceIndex_default (workerPerformance env nodes stage terminal w)) =
        sum_list (map (\<lambda>i. g (stage i)) (filter (\<lambda>i. workerOfTask env i = w) [0..<?N])) +
        (if workerOfTask env ?N = w then g terminal else 0)" for w
    using ne by (simp add: workerPerformance_def Let_def add zero foldl_stage_field[of g, OF add]
        workerStages_def runsTerminal_def)
  have "sum_list (map g (parallelPerformance env s nodes stage terminal)) =
        sum_list (map (\<lambda>w. sum_list (map (\<lambda>i. g (stage i)) (filter (\<lambda>i. workerOfTask env i = w) [0..<?N]))) [0..<?nT]) +
        sum_list (map (\<lambda>w. if workerOfTask env ?N = w then g terminal else 0) [0..<?nT])"
    by (simp add: parallelPerformance_def comp_def w sum_list_addf)
  also have "\<dots> = sum_list (map (\<lambda>i. g (stage i)) [0..<?N]) + g terminal"
  proof -
    have "\<forall>i<?N. workerOfTask env i < ?nT" using wo by simp
    moreover have "workerOfTask env ?N < ?nT" using wo ne by simp
    ultimately show ?thesis
      by (simp add: sum_list_partition sum_list_terminal)
  qed
  finally show ?thesis .
qed


lemma perf_add_fields:
  "stateEqConstraintISE (perf_add a b) = stateEqConstraintISE a + stateEqConstraintISE b"
  "stateInputEqConstraintISE (perf_add a b) =
     stateInputEqConstraintISE a + stateInputEqConstraintISE b"
  "inequalityConstraintISE (perf_add a b) = inequalityConstraintISE a + inequalityConstraintISE b"
  by (simp_all add: perf_add_def)

lemma PerformanceIndex_default_fields:
  "stateEqConstraintISE PerformanceIndex_default = 0"
  "stateInputEqConstraintISE PerformanceIndex_default = 0"
  "inequalityConstraintISE PerformanceIndex_default = 0"
  by (simp_all add: PerformanceIndex_default_def)

lemma sumPerformance_fields:
  assumes "pv \<noteq> []"
  shows "stateEqConstraintISE (sumPerformance initState x pv) =
           sum_list (map stateEqConstraintISE pv) + squaredNorm (vec_sub initState (hd x))"
    and "stateInputEqConstraintISE (sumPerformance initState x pv) =
           sum_list (map stateInputEqConstraintISE pv)"
    and "inequalityConstraintISE (sumPerformance initState x pv) =
           sum_list (map inequalityConstraintISE pv)"
  using assms
  by (cases pv; simp add: sumPerformance_def Let_def
        foldl_perf_add_field[of stateEqConstraintISE, OF perf_add_fields(1)]
        foldl_perf_add_field[of stateInputEqConstraintISE, OF perf_add_fields(2)]
        foldl_perf_add_field[of inequalityConstraintISE, OF perf_add_fields(3)])+

lemma parallelPerformance_nonempty:
  assumes "nodes \<noteq> []"
    and "\<forall>i<length nodes. workerOfTask env i < nThreads (settings' s)"
  shows "parallelPerformance env s nodes stage terminal \<noteq> []"
proof -
  have "0 < length nodes" using assms(1) by simp
  then have "workerOfTask env 0 < nThreads (settings' s)" using assms(2) by blast
  then show ?thesis by (auto simp add: parallelPerformance_def)
qed

text \<open>
  C9. Both \<open>setupQuadraticSubproblem\<close> and \<open>computePerformance\<close> add the squared norm of
  \<open>initState - x[0]\<close> to \<open>stateEqConstraintISE\<close> after the parallel accumulation: when every
  node is handed to one of the \<open>nThreads\<close> workers, the returned \<open>stateEqConstraintISE\<close> is the
  sum over the stages and the terminal node, whichever worker evaluated them, plus that
  squared norm, and so the constraint violation of the line search contains it.
\<close>

theorem initial_state_mismatch_in_performance:
  assumes ne: "nodes \<noteq> []"
    and wo: "\<forall>i<length nodes. workerOfTask env i < nThreads (settings' s)"
  shows "stateEqConstraintISE (fst (setupQuadraticSubproblem env s nodes initState x u)) =
           (\<Sum>i\<leftarrow>[0..<length nodes - 1].
              stateEqConstraintISE (performance (setupStage env s nodes x u i))) +
           stateEqConstraintISE (performance (setupTerminal env s nodes x)) +
           squaredNorm (vec_sub initState (hd x)) \<and>
         stateEqConstraintISE (computePerformance env s nodes initState x u) =
           (\<Sum>i\<leftarrow>[0..<length nodes - 1].
              stateEqConstraintISE (performanceStage env s nodes x u i)) +
           stateEqConstraintISE (performanceTerminal env s nodes x) +
           squaredNorm (vec_sub initState (hd x)) \<and>
         constraintViolation (fst (setupQuadraticSubproblem env s nodes initState x u)) =
           sqrt ((\<Sum>i\<leftarrow>[0..<length nodes - 1].
                    violationISE (performance (setupStage env s nodes x u i))) +
                 violationISE (performance (setupTerminal env s nodes x)) +
                 squaredNorm (vec_sub initState (hd x))) \<and>
         constraintViolation (computePerformance env s nodes initState x u) =
           sqrt ((\<Sum>i\<leftarrow>[0..<length nodes - 1].
                    violationISE (performanceStage env s nodes x u i)) +
                 violationISE (performanceTerminal env s nodes x) +
                 squaredNorm (vec_sub initState (hd x)))"
proof -
  note pne = parallelPerformance_nonempty[OF ne wo]
  note p1 = parallelPerformance_field[of stateEqConstraintISE, OF perf_add_fields(1)
      PerformanceIndex_default_fields(1) ne wo]
  note p2 = parallelPerformance_field[of stateInputEqConstraintISE, OF perf_add_fields(2)
      PerformanceIndex_default_fields(2) ne wo]
  note p3 = parallelPerformance_field[of inequalityConstraintISE, OF perf_add_fields(3)
      PerformanceIndex_default_fields(3) ne wo]
  have a: "stateEqConstraintISE (fst (setupQuadraticSubproblem env s nodes initState x u)) =
           (\<Sum>i\<leftarrow>[0..<length nodes - 1].
              stateEqConstraintISE (performance (setupStage env s nodes x u i))) +
           stateEqConstraintISE (performance (setupTerminal env s nodes x)) +
           squaredNorm (vec_sub initState (hd x))"
    by (simp add: setupQuadraticSubproblem_def Let_def sumPerformance_fields(1)[OF pne] p1)
  have b: "stateEqConstraintISE (computePerformance env s nodes initState x u) =
           (\<Sum>i\<leftarrow>[0..<length nodes - 1].
              stateEqConstraintISE (performanceStage env s nodes x u i)) +
           stateEqConstraintISE (performanceTerminal env s nodes x) +
           squaredNorm (vec_sub initState (hd x))"
    by (simp add: computePerformance_def sumPerformance_fields(1)[OF pne] p1)
  have c: "constraintViolation (fst (setupQuadraticSubproblem env s nodes initState x u)) =
           sqrt ((\<Sum>i\<leftarrow>[0..<length nodes - 1].
                    violationISE (performance (setupStage env s nodes x u i))) +
                 violationISE (performance (setupTerminal env s nodes x)) +
                 squaredNorm (vec_sub initState (hd x)))"
    by (simp add: setupQuadraticSubproblem_def Let_def constraintViolation_def violationISE_def
        sumPerformance_fields[OF pne] p1 p2 p3 sum_list_addf)
  have d: "constraintViolation (computePerformance env s nodes initState x u) =
           sqrt ((\<Sum>i\<leftarrow>[0..<length nodes - 1].
                    violationISE (performanceStage env s nodes x u i)) +
                 violationISE (performanceTerminal env s nodes x) +
                 squaredNorm (vec_sub initState (hd x)))"
    by (simp add: computePerformance_def constraintViolation_def violationISE_def
        sumPerformance_fields[OF pne] p1 p2 p3 sum_list_addf)
  from a b c d show ?thesis by blast
qed

theorem initial_state_mismatch_in_performance_witness:
  "stateEqConstraintISE (computePerformance demoEnv demoSolver demoNodes [1] [[0], [1]] [[0]]) = 2 \<and>
   stateEqConstraintISE
     (fst (setupQuadraticSubproblem demoEnv demoSolver demoNodes [1] [[0], [1]] [[0]])) = 2 \<and>
   constraintViolation (computePerformance demoEnv demoSolver demoNodes [1] [[0], [1]] [[0]]) =
     sqrt 2 \<and>
   constraintViolation
     (computePerformance demoTwoWorkerEnv demoTwoWorkerSolver demoNodes [1] [[0], [1]] [[0]]) =
     sqrt 2"
  using initial_state_mismatch_in_performance[of demoNodes demoEnv demoSolver "[1]"
      "[[0], [1]]" "[[0]]"]
    initial_state_mismatch_in_performance[of demoNodes demoTwoWorkerEnv demoTwoWorkerSolver
      "[1]" "[[0], [1]]" "[[0]]"]
  by (simp add: demoNodes_def demoEnv_def demoSolver_def demoSettings_def
      demoTwoWorkerEnv_def demoTwoWorkerSolver_def
      performanceStage_def performanceTerminal_def setupStage_def setupTerminal_def
      demoPerformance_def demoTranscription_def PerformanceIndex_default_def violationISE_def
      squaredNorm_def vec_sub_def vec_add_def Let_def less_Suc_eq numeral_2_eq_2)

section \<open>The acceptance test of the line search\<close>

text \<open>
  C1, as the code has it. Let \<open>P'\<close> be the performance recomputed at a trial point, \<open>\<theta>\<close> the
  constraint violation and \<open>M = totalCost + inequalityConstraintPenalty\<close>, and let the
  baseline carry its merit in \<open>merit\<close> (as every result of \<open>setupQuadraticSubproblem\<close> does).
  The trial is rejected whenever \<open>\<theta>(P') > g_max\<close>. Otherwise it is accepted if and only if
  (a) \<open>\<theta>(P') < g_min\<close> and \<open>M(P') < M(baseline)\<close>, or (b) \<open>g_min \<le> \<theta>(P')\<close> and
  (\<open>M(P') < M(baseline) - \<gamma>\<^sub>c \<theta>(baseline)\<close> or \<open>\<theta>(P') < (1 - \<gamma>\<^sub>c) \<theta>(baseline)\<close>). A violation
  equal to \<open>g_min\<close> is judged by (b), not by (a).
\<close>

theorem stepAccepted_filter_rule:
  assumes "merit baseline = totalCost baseline + inequalityConstraintPenalty baseline"
  shows "stepAccepted (settings' s) baseline
           (computePerformance env s timeDiscretization initState xNew uNew) \<longleftrightarrow>
         (let P = computePerformance env s timeDiscretization initState xNew uNew;
              M = (\<lambda>p. totalCost p + inequalityConstraintPenalty p);
              \<theta> = constraintViolation
          in \<theta> P \<le> g_max (settings' s) \<and>
             (\<theta> P < g_min (settings' s) \<and> M P < M baseline \<or>
              g_min (settings' s) \<le> \<theta> P \<and>
              (M P < M baseline - gamma_c (settings' s) * \<theta> baseline \<or>
               \<theta> P < (1 - gamma_c (settings' s)) * \<theta> baseline)))"
  using assms merit_sumPerformance[of initState xNew]
  by (auto simp add: stepAccepted_def Let_def computePerformance_def)

theorem stepAccepted_filter_rule_witness:
  "merit demoBaseline = totalCost demoBaseline + inequalityConstraintPenalty demoBaseline \<and>
   stepAccepted (settings' demoSolver) demoBaseline
     (computePerformance demoEnv demoSolver demoNodes [0] [[0], [0]] [[0]])"
  using stepAccepted_filter_rule[of demoBaseline demoSolver demoEnv demoNodes "[0]"
      "[[0], [0]]" "[[0]]"]
  unfolding demo_computePerformance_rest
  by (simp add: demoBaseline_def constraintViolation_def demoSolver_def demoSettings_def)

text \<open>
  The claim as it is written puts a violation equal to \<open>g_min\<close> under (a). On the example
  the trial point \<open>x = [0, 1]\<close>, \<open>u = [0]\<close> has \<open>\<theta> = 1 = g_min\<close> and a smaller merit than the
  baseline, so (a) as written would accept it; the code tests (b) and rejects it.
\<close>

theorem stepAccepted_at_g_min_counterexample:
  "\<not> (stepAccepted (settings' demoSolver) demoBaseline
         (computePerformance demoEnv demoSolver demoNodes [0] [[0], [1]] [[0]]) \<longleftrightarrow>
       (let P = computePerformance demoEnv demoSolver demoNodes [0] [[0], [1]] [[0]];
            M = (\<lambda>p. totalCost p + inequalityConstraintPenalty p);
            \<theta> = constraintViolation
        in \<theta> P \<le> g_min (settings' demoSolver) \<and> M P < M demoBaseline \<or>
           g_min (settings' demoSolver) < \<theta> P \<and> \<theta> P \<le> g_max (settings' demoSolver) \<and>
           (M P < M demoBaseline - gamma_c (settings' demoSolver) * \<theta> demoBaseline \<or>
            \<theta> P < (1 - gamma_c (settings' demoSolver)) * \<theta> demoBaseline)))"
  unfolding demo_computePerformance_gap
  by (simp add: stepAccepted_def demoBaseline_def constraintViolation_def demoSolver_def
      demoSettings_def)

section \<open>The solution of the quadratic subproblem\<close>

lemma vec_add_commute: "vec_add a b = vec_add b a"
  unfolding vec_add_def
  by (induction a arbitrary: b) (simp, case_tac b, simp_all)

lemma remapStage_nth:
  assumes "k < length acc"
  shows "length (remapStage proj dX acc k) = length acc"
    and "i < length acc \<Longrightarrow> remapStage proj dX acc k ! i =
           (if i = k then remapped proj dX acc k else acc ! i)"
  using assms by (auto simp add: remapStage_def Let_def remapped_def nth_list_update)

lemma remap_prefix:
  assumes "k \<le> length dU"
  shows "length (foldl (remapStage proj dX) dU [0..<k]) = length dU \<and>
         (\<forall>i<length dU. foldl (remapStage proj dX) dU [0..<k] ! i =
            (if i < k then remapped proj dX dU i else dU ! i))"
  using assms
proof (induction k)
  case 0
  then show ?case by simp
next
  case (Suc k)
  define acc where "acc = foldl (remapStage proj dX) dU [0..<k]"
  from Suc have len: "length acc = length dU"
    and nth: "\<And>i. i < length dU \<Longrightarrow> acc ! i = (if i < k then remapped proj dX dU i else dU ! i)"
    by (simp_all add: acc_def)
  from Suc.prems have k: "k < length acc" by (simp add: len)
  have same: "remapped proj dX acc k = remapped proj dX dU k"
    using k len nth[of k] by (simp add: remapped_def)
  have step: "foldl (remapStage proj dX) dU [0..<Suc k] = remapStage proj dX acc k"
    by (simp add: acc_def)
  show ?case
    unfolding step
    using remapStage_nth[OF k, where proj=proj and dX=dX] len nth same
    by (auto simp add: less_Suc_eq)
qed

lemma remapDeltaU_nth:
  "length (remapDeltaU proj dX dU) = length dU"
  "i < length dU \<Longrightarrow> remapDeltaU proj dX dU ! i = remapped proj dX dU i"
  using remap_prefix[of "length dU" dU proj dX]
  by (simp_all add: remapDeltaU_def)

text \<open>
  C3. With \<open>projectStateInputEqualityConstraints\<close> enabled and a successful QP,
  \<open>getOCPSolution\<close> returns the state steps of the QP and, at every stage \<open>i\<close>, the input step
  \<open>f + dfdu * \<delta>u\<^sub>i + dfdx * \<delta>x\<^sub>i\<close> of \<open>constraintsProjection_[i]\<close> where its \<open>f\<close> is not empty,
  and the input step of the QP unchanged where it is. The source reads
  \<open>constraintsProjection_[i]\<close> and \<open>deltaXSol[i]\<close> for every \<open>i\<close> below \<open>deltaUSol.size()\<close>; the
  theorem is stated for solutions where these reads are in range.
\<close>

theorem getOCPSolution_remap:
  assumes proj: "projectStateInputEqualityConstraints (settings' s)"
    and qp: "solveQP env s delta_x0 = ((SUCCESS, deltaXSol, deltaUSol), h)"
    and sizes: "length deltaUSol \<le> length (constraintsProjection' s)"
      "length deltaUSol \<le> length deltaXSol"
  shows "\<exists>deltaU. getOCPSolution env s delta_x0 =
             Inr ((deltaXSol, deltaU), s\<lparr>hpipmInterface' := h\<rparr>) \<and>
           length deltaU = length deltaUSol \<and>
           (\<forall>i<length deltaUSol.
              deltaU ! i =
                (let p = constraintsProjection' s ! i in
                 if length (f p) > 0
                 then vec_add (vec_add (f p) (mat_vec (dfdu p) (deltaUSol ! i)))
                        (mat_vec (dfdx p) (deltaXSol ! i))
                 else deltaUSol ! i))"
proof -
  have "getOCPSolution env s delta_x0 =
          Inr ((deltaXSol, remapDeltaU (constraintsProjection' s) deltaXSol deltaUSol),
               s\<lparr>hpipmInterface' := h\<rparr>)"
    using proj qp by (simp add: getOCPSolution_def)
  moreover have "length (remapDeltaU (constraintsProjection' s) deltaXSol deltaUSol) =
      length deltaUSol"
    by (rule remapDeltaU_nth)
  moreover have "\<forall>i<length deltaUSol.
      remapDeltaU (constraintsProjection' s) deltaXSol deltaUSol ! i =
        (let p = constraintsProjection' s ! i in
         if length (f p) > 0
         then vec_add (vec_add (f p) (mat_vec (dfdu p) (deltaUSol ! i)))
                (mat_vec (dfdx p) (deltaXSol ! i))
         else deltaUSol ! i)"
    by (simp add: remapDeltaU_nth remapped_def Let_def vec_add_commute[of "f _"])
  ultimately show ?thesis by blast
qed

lemma demo_solveQP_proj:
  "solveQP demoEnv demoProjSolver [0] =
     ((SUCCESS, [[1], [1], [1]], [[1], [1]]),
      \<lparr>ocpSize' = 2, requests = [Resize 2, Solve [0] None]\<rparr>)"
  by (simp add: solveQP_def solve_def resize_def demoEnv_def demoProjSolver_def demoSolver_def
      demoSettings_def numeral_2_eq_2 numeral_3_eq_3)

theorem getOCPSolution_remap_witness:
  "\<exists>deltaU. getOCPSolution demoEnv demoProjSolver [0] =
       Inr (([[1], [1], [1]], deltaU),
            demoProjSolver
              \<lparr>hpipmInterface' := \<lparr>ocpSize' = 2, requests = [Resize 2, Solve [0] None]\<rparr>\<rparr>) \<and>
     deltaU ! 0 = [6] \<and> deltaU ! 1 = [1]"
proof -
  have p: "projectStateInputEqualityConstraints (settings' demoProjSolver)"
    by (simp add: demoProjSolver_def)
  have s1: "length [[1], [1::real]] \<le> length (constraintsProjection' demoProjSolver)"
    by (simp add: demoProjSolver_def)
  have s2: "length [[1], [1::real]] \<le> length [[1], [1], [1::real]]"
    by simp
  from getOCPSolution_remap[OF p demo_solveQP_proj s1 s2]
  obtain deltaU where
    r: "getOCPSolution demoEnv demoProjSolver [0] =
          Inr (([[1], [1], [1]], deltaU),
               demoProjSolver
                 \<lparr>hpipmInterface' := \<lparr>ocpSize' = 2, requests = [Resize 2, Solve [0] None]\<rparr>\<rparr>)"
    and n: "\<And>i. i < 2 \<Longrightarrow> deltaU ! i =
          (let p = constraintsProjection' demoProjSolver ! i in
           if length (f p) > 0
           then vec_add (vec_add (f p) (mat_vec (dfdu p) ([[1], [1]] ! i)))
                  (mat_vec (dfdx p) ([[1], [1], [1]] ! i))
           else [[1], [1]] ! i)"
    by auto
  have "deltaU ! 0 = [6]"
    using n[of 0] by (simp add: demoProjSolver_def vec_add_def mat_vec_def dot_def)
  moreover have "deltaU ! 1 = [1]"
    using n[of 1] by (simp add: demoProjSolver_def Zero_def)
  ultimately show ?thesis using r by blast
qed


text \<open>
  C5. \<open>getOCPSolution\<close> sends the back-end one resize and one solve request. Both carry
  the assembled constraints exactly when the first worker has a constraint provider and
  \<open>projectStateInputEqualityConstraints\<close> is disabled, and the null pointer in every other
  case; the status and the steps are those the back-end returns for that request.
\<close>

theorem getOCPSolution_constraints_argument:
  "(let con = (if hd (constraintPtr' s) \<noteq> None \<and>
                   \<not> projectStateInputEqualityConstraints (settings' s)
               then Some (constraints' s) else None);
        sz = extractSizesFromProblem env (dynamics' s) (cost' s) con;
        h = hpipmInterface' (solverAfter (getOCPSolution env s delta_x0))
    in requests h = requests (hpipmInterface' s) @ [Resize sz, Solve delta_x0 con] \<and>
       ocpSize' h = sz \<and>
       fst (solveQP env s delta_x0) =
         hpipmSolve env (resize sz (hpipmInterface' s)) delta_x0 (dynamics' s) (cost' s) con)"
  by (cases "fst (hpipmSolve env
         (resize (extractSizesFromProblem env (dynamics' s) (cost' s) (Some (constraints' s))) (hpipmInterface' s))
         delta_x0 (dynamics' s) (cost' s) (Some (constraints' s)))";
      cases "fst (hpipmSolve env
         (resize (extractSizesFromProblem env (dynamics' s) (cost' s) None) (hpipmInterface' s))
         delta_x0 (dynamics' s) (cost' s) None)")
     (auto simp add: getOCPSolution_def solveQP_def solve_def resize_def solverAfter_def Let_def
      split: prod.splits)

theorem getOCPSolution_constraints_argument_witness:
  "requests (hpipmInterface' (solverAfter (getOCPSolution demoEnv demoConSolver [0]))) =
     [Resize 2, Solve [0] (Some [Zero 0 1 1, Zero 0 1 1, Zero 0 1 0])] \<and>
   requests (hpipmInterface' (solverAfter (getOCPSolution demoEnv demoProjSolver [0]))) =
     [Resize 2, Solve [0] None]"
  using getOCPSolution_constraints_argument[of demoConSolver demoEnv "[0]"]
    getOCPSolution_constraints_argument[of demoProjSolver demoEnv "[0]"]
  by (simp add: Let_def demoConSolver_def demoProjSolver_def demoSolver_def demoSettings_def
      demoEnv_def)


section \<open>The initial state trajectory\<close>

lemma foldl_push_back: "foldl (\<lambda>x i. x @ [g i]) acc js = acc @ map g js"
  by (induction js arbitrary: acc) simp_all

text \<open>
  C7. While no SQP iteration has been counted (\<open>totalNumIterations_ = 0\<close>, the first call)
  \<open>initializeStateTrajectory\<close> returns the initial state at every grid node. Once iterations
  have been counted it returns the initial state at node 0 and, at every node \<open>i \<ge> 1\<close>, the
  interpolation of the previous primal solution's state trajectory at the interpolation
  time of that node.
\<close>

theorem initializeStateTrajectory_cases:
  "(totalNumIterations' s = 0 \<longrightarrow>
      initializeStateTrajectory env s initState timeDiscretization =
        replicate (length timeDiscretization) initState) \<and>
   (totalNumIterations' s \<noteq> 0 \<longrightarrow>
      (let x = initializeStateTrajectory env s initState timeDiscretization in
       x ! 0 = initState \<and>
       length x = max 1 (length timeDiscretization) \<and>
       (\<forall>i. 1 \<le> i \<and> i < length timeDiscretization \<longrightarrow>
          x ! i =
            interpolate env (getInterpolationTime env (timeDiscretization ! i))
              (timeTrajectory' (primalSolution' s)) (stateTrajectory' (primalSolution' s)))))"
proof (intro conjI impI)
  assume "totalNumIterations' s = 0"
  then show "initializeStateTrajectory env s initState timeDiscretization =
        replicate (length timeDiscretization) initState"
    by (simp add: initializeStateTrajectory_def)
next
  assume warm: "totalNumIterations' s \<noteq> 0"
  let ?g = "\<lambda>i. interpolate env (getInterpolationTime env (timeDiscretization ! i))
              (timeTrajectory' (primalSolution' s)) (stateTrajectory' (primalSolution' s))"
  have eq: "initializeStateTrajectory env s initState timeDiscretization =
      initState # map ?g [1..<length timeDiscretization]"
    using warm by (simp add: initializeStateTrajectory_def Let_def foldl_push_back[of ?g])
  show "let x = initializeStateTrajectory env s initState timeDiscretization in
       x ! 0 = initState \<and>
       length x = max 1 (length timeDiscretization) \<and>
       (\<forall>i. 1 \<le> i \<and> i < length timeDiscretization \<longrightarrow> x ! i = ?g i)"
    unfolding eq Let_def
    by (auto simp add: nth_Cons split: nat.splits)
qed

theorem initializeStateTrajectory_cases_witness:
  "initializeStateTrajectory demoEnv demoSolver [5] demoNodes = [[5], [5]] \<and>
   initializeStateTrajectory demoEnv demoWarmSolver [5] demoNodes ! 0 = [5] \<and>
   initializeStateTrajectory demoEnv demoWarmSolver [5] demoNodes ! 1 = [3]"
  using initializeStateTrajectory_cases[of demoSolver demoEnv "[5]" demoNodes]
    initializeStateTrajectory_cases[of demoWarmSolver demoEnv "[5]" demoNodes]
  by (simp add: Let_def demoSolver_def demoWarmSolver_def demoNodes_def demoEnv_def
      vec_add_def vec_scale_def numeral_2_eq_2)


section \<open>The primal solution\<close>

lemma nominal_prefix:
  assumes "k \<le> length nodes"
  shows "fst (foldl (nominalStage nodes) ([], u1) [0..<k]) = map (\<lambda>i. time (nodes ! i)) [0..<k] \<and>
         length (snd (foldl (nominalStage nodes) ([], u1) [0..<k])) = length u1 \<and>
         (\<forall>j. k \<le> j \<longrightarrow> snd (foldl (nominalStage nodes) ([], u1) [0..<k]) ! j = u1 ! j) \<and>
         (\<forall>j. 0 < j \<and> j < k \<and> j < length u1 \<and> event (nodes ! j) = PreEvent \<longrightarrow>
              snd (foldl (nominalStage nodes) ([], u1) [0..<k]) ! j =
              snd (foldl (nominalStage nodes) ([], u1) [0..<k]) ! (j - 1))"
  using assms
proof (induction k)
  case 0
  then show ?case by simp
next
  case (Suc k)
  define acc where "acc = foldl (nominalStage nodes) ([], u1) [0..<k]"
  from Suc have t: "fst acc = map (\<lambda>i. time (nodes ! i)) [0..<k]"
    and len: "length (snd acc) = length u1"
    and rest: "\<And>j. k \<le> j \<Longrightarrow> snd acc ! j = u1 ! j"
    and pre: "\<And>j. 0 < j \<Longrightarrow> j < k \<Longrightarrow> j < length u1 \<Longrightarrow> event (nodes ! j) = PreEvent \<Longrightarrow>
                snd acc ! j = snd acc ! (j - 1)"
    by (simp_all add: acc_def)
  have step: "foldl (nominalStage nodes) ([], u1) [0..<Suc k] = nominalStage nodes acc k"
    by (simp add: acc_def)
  show ?case
  proof (cases "event (nodes ! k) = PreEvent \<and> k > 0")
    case True
    then have r: "nominalStage nodes acc k =
        (fst acc @ [time (nodes ! k)], (snd acc)[k := snd acc ! (k - 1)])"
      by (simp add: nominalStage_def split: prod.splits)
    show ?thesis
      unfolding step r
      using t len rest pre True
      by (auto simp add: nth_list_update less_Suc_eq)
  next
    case False
    then have r: "nominalStage nodes acc k = (fst acc @ [time (nodes ! k)], snd acc)"
      by (auto simp add: nominalStage_def split: prod.splits)
    show ?thesis
      unfolding step r
      using t len rest pre False
      by (auto simp add: less_Suc_eq)
  qed
qed

text \<open>
  C8. When \<open>setPrimalSolution\<close> is given a state for every grid node and an input for every
  node but the last (at least one), the stored time, state and input trajectories have the
  same length, and at every pre-event node \<open>i > 0\<close> the stored input equals the stored input
  of node \<open>i - 1\<close>.
\<close>

theorem setPrimalSolution_trajectories:
  assumes "length x = length nodes" and "length u + 1 = length nodes" and "u \<noteq> []"
  shows "(let ps = primalSolution' (setPrimalSolution env s nodes x u) in
          timeTrajectory' ps = map time nodes \<and>
          stateTrajectory' ps = x \<and>
          length (stateTrajectory' ps) = length (timeTrajectory' ps) \<and>
          length (inputTrajectory' ps) = length (timeTrajectory' ps) \<and>
          (\<forall>i. 0 < i \<and> i < length nodes \<and> event (nodes ! i) = PreEvent \<longrightarrow>
               inputTrajectory' ps ! i = inputTrajectory' ps ! (i - 1)))"
proof -
  note p = nominal_prefix[of "length nodes" nodes "u @ [last u]", simplified]
  have m: "map (\<lambda>i. time (nodes ! i)) [0..<length nodes] = map time nodes"
    by (rule nth_equalityI) simp_all
  show ?thesis
    using p assms by (simp add: setPrimalSolution_def Let_def m)
qed

theorem setPrimalSolution_trajectories_witness:
  "inputTrajectory' (primalSolution'
       (setPrimalSolution demoEnv demoSolver demoEventNodes [[0], [1], [1], [2]] [[1], [7], [1]])) =
     [[1], [1], [1], [1]] \<and>
   timeTrajectory' (primalSolution'
       (setPrimalSolution demoEnv demoSolver demoEventNodes [[0], [1], [1], [2]] [[1], [7], [1]])) =
     [0, 1 / 2, 1 / 2, 1]"
  using setPrimalSolution_trajectories[of "[[0], [1], [1], [2]]" demoEventNodes "[[1], [7], [1]]"
      demoEnv demoSolver]
  by (simp add: setPrimalSolution_def Let_def demoSolver_def demoSettings_def demoEventNodes_def
      nominalStage_def upt_rec[of _ "numeral _"])


lemma vec_sub_add_cancel:
  "length a \<le> length b \<Longrightarrow> vec_add (vec_sub a b) b = a"
  unfolding vec_add_def vec_sub_def
proof (induction a arbitrary: b)
  case Nil
  then show ?case by simp
next
  case (Cons c a)
  then show ?case by (cases b) simp_all
qed

lemma length_mat_vec: "length (mat_vec A v) = length A"
  by (simp add: mat_vec_def)

lemma feedbackStage_eq:
  "feedbackStage nodes x u KM (uff, gain, proj) i =
     (if event (nodes ! i) = PreEvent \<and> uff \<noteq> []
      then (uff @ [last uff], gain @ [last gain], proj)
      else (uff @ [vec_sub (u ! i) (mat_vec (fullGain proj KM i) (x ! i))],
            gain @ [fullGain proj KM i],
            if length (f (proj ! i)) > 0 then proj[i := (proj ! i)\<lparr>dfdx := []\<rparr>] else proj))"
  by (simp add: feedbackStage_def fullGain_def Let_def)

lemma feedback_prefix:
  "\<exists>uff gain proj1.
     foldl (feedbackStage nodes x u KM) ([], [], proj) [0..<k] = (uff, gain, proj1) \<and>
     length uff = k \<and> length gain = k \<and>
     (\<forall>j\<ge>k. proj1 ! j = proj ! j) \<and>
     (\<forall>i<k. event (nodes ! i) \<noteq> PreEvent \<or> i = 0 \<longrightarrow>
        gain ! i = fullGain proj KM i \<and>
        uff ! i = vec_sub (u ! i) (mat_vec (gain ! i) (x ! i))) \<and>
     (\<forall>i<k. 0 < i \<and> event (nodes ! i) = PreEvent \<longrightarrow>
        uff ! i = uff ! (i - 1) \<and> gain ! i = gain ! (i - 1))"
proof (induction k)
  case 0
  then show ?case by simp
next
  case (Suc k)
  then obtain uff gain proj1 where
    acc: "foldl (feedbackStage nodes x u KM) ([], [], proj) [0..<k] = (uff, gain, proj1)"
    and lu: "length uff = k" and lg: "length gain = k"
    and pr: "\<And>j. k \<le> j \<Longrightarrow> proj1 ! j = proj ! j"
    and reg: "\<And>i. i < k \<Longrightarrow> event (nodes ! i) \<noteq> PreEvent \<or> i = 0 \<Longrightarrow>
        gain ! i = fullGain proj KM i \<and>
        uff ! i = vec_sub (u ! i) (mat_vec (gain ! i) (x ! i))"
    and ev: "\<And>i. i < k \<Longrightarrow> 0 < i \<Longrightarrow> event (nodes ! i) = PreEvent \<Longrightarrow>
        uff ! i = uff ! (i - 1) \<and> gain ! i = gain ! (i - 1)"
    by blast
  have step: "foldl (feedbackStage nodes x u KM) ([], [], proj) [0..<Suc k] =
      feedbackStage nodes x u KM (uff, gain, proj1) k"
    by (simp add: acc)
  have fg: "fullGain proj1 KM k = fullGain proj KM k"
    using pr[of k] by (simp add: fullGain_def)
  have ne: "uff \<noteq> [] \<longleftrightarrow> 0 < k" using lu by auto
  show ?case
  proof (cases "event (nodes ! k) = PreEvent \<and> 0 < k")
    case True
    then have k: "0 < k" and e: "event (nodes ! k) = PreEvent" by simp_all
    have lastu: "last uff = uff ! (k - 1)" using lu k ne by (simp add: last_conv_nth)
    have gne: "gain \<noteq> []" using lg k by auto
    have lastg: "last gain = gain ! (k - 1)" using lg gne by (simp add: last_conv_nth)
    have r: "feedbackStage nodes x u KM (uff, gain, proj1) k =
        (uff @ [uff ! (k - 1)], gain @ [gain ! (k - 1)], proj1)"
      using True ne by (simp add: feedbackStage_eq lastu lastg)
    have g5: "gain' ! i = fullGain proj KM i \<and>
            uff' ! i = vec_sub (u ! i) (mat_vec (gain' ! i) (x ! i))"
      if "i < Suc k" "event (nodes ! i) \<noteq> PreEvent \<or> i = 0"
        "uff' = uff @ [uff ! (k - 1)]" "gain' = gain @ [gain ! (k - 1)]" for i uff' gain'
    proof -
      from that(1,2) e k have "i < k" by (cases "i = k") auto
      then show ?thesis using reg[of i] that lu lg by (simp add: nth_append)
    qed
    have g6: "uff' ! i = uff' ! (i - 1) \<and> gain' ! i = gain' ! (i - 1)"
      if "i < Suc k" "0 < i" "event (nodes ! i) = PreEvent"
        "uff' = uff @ [uff ! (k - 1)]" "gain' = gain @ [gain ! (k - 1)]" for i uff' gain'
    proof (cases "i = k")
      case True
      then show ?thesis using that lu lg k by (simp add: nth_append)
    next
      case False
      then have "i < k" using that(1) by simp
      then have "i - 1 < k" by simp
      with \<open>i < k\<close> show ?thesis using ev[of i] that lu lg by (simp add: nth_append)
    qed
    show ?thesis
      unfolding step r
      apply (rule exI[of _ "uff @ [uff ! (k - 1)]"])
      apply (rule exI[of _ "gain @ [gain ! (k - 1)]"])
      apply (rule exI[of _ proj1])
      using lu lg pr g5 g6 by simp
  next
    case False
    define g where "g = fullGain proj KM k"
    define proj2 where "proj2 =
      (if length (f (proj1 ! k)) > 0 then proj1[k := (proj1 ! k)\<lparr>dfdx := []\<rparr>] else proj1)"
    have r: "feedbackStage nodes x u KM (uff, gain, proj1) k =
        (uff @ [vec_sub (u ! k) (mat_vec g (x ! k))], gain @ [g], proj2)"
      using False ne by (auto simp add: feedbackStage_eq fg g_def proj2_def)
    have g4: "proj2 ! j = proj ! j" if "Suc k \<le> j" for j
      using that pr[of j] by (simp add: proj2_def)
    have g5: "gain' ! i = fullGain proj KM i \<and>
            uff' ! i = vec_sub (u ! i) (mat_vec (gain' ! i) (x ! i))"
      if "i < Suc k" "event (nodes ! i) \<noteq> PreEvent \<or> i = 0"
        "uff' = uff @ [vec_sub (u ! k) (mat_vec g (x ! k))]" "gain' = gain @ [g]" for i uff' gain'
    proof (cases "i = k")
      case True
      then show ?thesis using that lu lg by (simp add: nth_append g_def)
    next
      case False
      then have "i < k" using that(1) by simp
      then show ?thesis using reg[of i] that lu lg by (simp add: nth_append)
    qed
    have g6: "uff' ! i = uff' ! (i - 1) \<and> gain' ! i = gain' ! (i - 1)"
      if "i < Suc k" "0 < i" "event (nodes ! i) = PreEvent"
        "uff' = uff @ [vec_sub (u ! k) (mat_vec g (x ! k))]" "gain' = gain @ [g]" for i uff' gain'
    proof -
      from that(1,2,3) False have "i < k" by (cases "i = k") auto
      then have "i - 1 < k" by simp
      with \<open>i < k\<close> show ?thesis using ev[of i] that lu lg by (simp add: nth_append)
    qed
    show ?thesis
      unfolding step r
      apply (rule exI[of _ "uff @ [vec_sub (u ! k) (mat_vec g (x ! k))]"])
      apply (rule exI[of _ "gain @ [g]"])
      apply (rule exI[of _ proj2])
      using lu lg g4 g5 g6 by simp
  qed
qed


text \<open>
  C4, as the code has it. With \<open>useFeedbackPolicy\<close> enabled and at least two grid nodes,
  \<open>setPrimalSolution\<close> stores a linear controller over the grid times with one feedforward
  term and one gain per node. At a stage \<open>i\<close> below the last node that is not a pre-event
  stage (or is stage 0) the gain is \<open>K\<^sub>i\<close> where the projection is absent and
  \<open>dfdx + dfdu * K\<^sub>i\<close> where it is present, the feedforward term is \<open>u\<^sub>i - K x\<^sub>i\<close> for that gain,
  and the controller evaluated at that node and \<open>x\<^sub>i\<close> returns \<open>u\<^sub>i\<close> when the gain has as many
  rows as \<open>u\<^sub>i\<close> has entries. At a pre-event stage \<open>i > 0\<close> the pair of stage \<open>i - 1\<close> is
  repeated, and the pair of the last node is that of the node before it.
\<close>

theorem setPrimalSolution_feedback:
  assumes fb: "useFeedbackPolicy (settings' s)"
    and n2: "2 \<le> length nodes"
    and KM: "KM = getRiccatiFeedback env (hpipmInterface' s) (dynamics' s ! 0) (cost' s ! 0)"
    and sizes: "length nodes - 1 \<le> length (constraintsProjection' s)"
      "length nodes - 1 \<le> length KM" "length nodes - 1 \<le> length u"
      "length nodes - 1 \<le> length x"
  shows "\<exists>uff gain.
           controllerPtr' (primalSolution' (setPrimalSolution env s nodes x u)) =
             Some (LinearController (map time nodes) uff gain) \<and>
           length uff = length nodes \<and> length gain = length nodes \<and>
           (\<forall>i<length nodes - 1. event (nodes ! i) \<noteq> PreEvent \<or> i = 0 \<longrightarrow>
              gain ! i = fullGain (constraintsProjection' s) KM i \<and>
              uff ! i = vec_sub (u ! i) (mat_vec (gain ! i) (x ! i)) \<and>
              (length (gain ! i) = length (u ! i) \<longrightarrow>
                 linearControllerAtNode (LinearController (map time nodes) uff gain) i (x ! i) =
                   u ! i)) \<and>
           (\<forall>i<length nodes - 1. 0 < i \<and> event (nodes ! i) = PreEvent \<longrightarrow>
              uff ! i = uff ! (i - 1) \<and> gain ! i = gain ! (i - 1)) \<and>
           uff ! (length nodes - 1) = uff ! (length nodes - 2) \<and>
           gain ! (length nodes - 1) = gain ! (length nodes - 2)"
proof -
  define N where "N = length nodes - 1"
  have N: "0 < N" "length nodes = Suc N" "length nodes - 2 = N - 1"
    using n2 by (simp_all add: N_def)
  from feedback_prefix[of nodes x u KM "constraintsProjection' s" N]
  obtain uff gain proj1 where
    acc: "foldl (feedbackStage nodes x u KM) ([], [], constraintsProjection' s) [0..<N] =
            (uff, gain, proj1)"
    and lu: "length uff = N" and lg: "length gain = N"
    and reg: "\<And>i. i < N \<Longrightarrow> event (nodes ! i) \<noteq> PreEvent \<or> i = 0 \<Longrightarrow>
        gain ! i = fullGain (constraintsProjection' s) KM i \<and>
        uff ! i = vec_sub (u ! i) (mat_vec (gain ! i) (x ! i))"
    and ev: "\<And>i. i < N \<Longrightarrow> 0 < i \<Longrightarrow> event (nodes ! i) = PreEvent \<Longrightarrow>
        uff ! i = uff ! (i - 1) \<and> gain ! i = gain ! (i - 1)"
    by blast
  have une: "uff \<noteq> []" and gne: "gain \<noteq> []" using lu lg N(1) by auto
  define uff1 where "uff1 = uff @ [last uff]"
  define gain1 where "gain1 = gain @ [last gain]"
  have fp: "feedbackPolicy nodes x u KM (constraintsProjection' s) = (uff1, gain1, proj1)"
    unfolding feedbackPolicy_def N_def[symmetric] acc by (simp add: uff1_def gain1_def)
  have tt: "fst (foldl (nominalStage nodes) ([], u @ [last u]) [0..<length nodes]) =
      map time nodes"
  proof -
    have "fst (foldl (nominalStage nodes) ([], u @ [last u]) [0..<length nodes]) =
        map (\<lambda>i. time (nodes ! i)) [0..<length nodes]"
      using nominal_prefix[of "length nodes" nodes "u @ [last u]"] by blast
    also have "\<dots> = map time nodes"
      by (rule nth_equalityI) simp_all
    finally show ?thesis .
  qed
  have ctrl: "controllerPtr' (primalSolution' (setPrimalSolution env s nodes x u)) =
      Some (LinearController (map time nodes) uff1 gain1)"
    using fb by (simp add: setPrimalSolution_def Let_def KM[symmetric] fp tt)
  have l1: "length uff1 = length nodes" "length gain1 = length nodes"
    by (simp_all add: uff1_def gain1_def lu lg N)
  have nth1: "uff1 ! i = uff ! i" "gain1 ! i = gain ! i" if "i < N" for i
    using that lu lg by (simp_all add: uff1_def gain1_def nth_append)
  have lastN: "uff1 ! N = uff ! (N - 1)" "gain1 ! N = gain ! (N - 1)"
    using lu lg une gne by (simp_all add: uff1_def gain1_def nth_append last_conv_nth)
  have r1: "gain1 ! i = fullGain (constraintsProjection' s) KM i \<and>
            uff1 ! i = vec_sub (u ! i) (mat_vec (gain1 ! i) (x ! i)) \<and>
            (length (gain1 ! i) = length (u ! i) \<longrightarrow>
               linearControllerAtNode (LinearController (map time nodes) uff1 gain1) i (x ! i) =
                 u ! i)"
    if "i < N" "event (nodes ! i) \<noteq> PreEvent \<or> i = 0" for i
  proof -
    from reg[OF that] nth1[OF that(1)]
    have a: "gain1 ! i = fullGain (constraintsProjection' s) KM i"
      and b: "uff1 ! i = vec_sub (u ! i) (mat_vec (gain1 ! i) (x ! i))"
      by simp_all
    have "vec_add (vec_sub (u ! i) (mat_vec (gain1 ! i) (x ! i))) (mat_vec (gain1 ! i) (x ! i)) =
        u ! i" if "length (gain1 ! i) = length (u ! i)"
      by (rule vec_sub_add_cancel) (simp add: length_mat_vec that)
    then show ?thesis
      using a b by (simp add: linearControllerAtNode_def)
  qed
  have r2: "uff1 ! i = uff1 ! (i - 1) \<and> gain1 ! i = gain1 ! (i - 1)"
    if "i < N" "0 < i" "event (nodes ! i) = PreEvent" for i
  proof -
    have "i - 1 < N" using that(1) by simp
    then show ?thesis using ev[OF that] nth1[OF that(1)] nth1[of "i - 1"] by simp
  qed
  have r3: "uff1 ! N = uff1 ! (N - 1)" "gain1 ! N = gain1 ! (N - 1)"
    using lastN nth1[of "N - 1"] N(1) by simp_all
  show ?thesis
    apply (rule exI[of _ uff1])
    apply (rule exI[of _ gain1])
    unfolding N_def[symmetric] N(3)
    using ctrl l1 r1 r2 r3 by (simp add: N)
qed


lemma demo_feedback_controller:
  "controllerPtr' (primalSolution'
       (setPrimalSolution demoEnv demoFeedbackSolver demoEventNodes
          [[1], [2], [2], [3]] [[5], [7], [4]])) =
     Some (LinearController [0, 1 / 2, 1 / 2, 1] [[0], [0], [2], [2]]
             [[[5]], [[5]], [[1]], [[1]]])"
  by (simp add: setPrimalSolution_def Let_def demoFeedbackSolver_def demoSolver_def
      demoSettings_def demoEventNodes_def demoEnv_def nominalStage_def feedbackPolicy_def
      feedbackStage_def Zero_def mat_add_def mat_mul_def mat_vec_def dot_def vec_add_def
      vec_sub_def upt_rec[of _ "numeral _"] numeral_3_eq_3)

theorem setPrimalSolution_feedback_witness:
  "controllerPtr' (primalSolution'
       (setPrimalSolution demoEnv demoFeedbackSolver demoEventNodes
          [[1], [2], [2], [3]] [[5], [7], [4]])) =
     Some (LinearController [0, 1 / 2, 1 / 2, 1] [[0], [0], [2], [2]]
             [[[5]], [[5]], [[1]], [[1]]]) \<and>
   linearControllerAtNode
     (LinearController [0, 1 / 2, 1 / 2, 1] [[0], [0], [2], [2]] [[[5]], [[5]], [[1]], [[1]]])
     0 [1] = [5] \<and>
   linearControllerAtNode
     (LinearController [0, 1 / 2, 1 / 2, 1] [[0], [0], [2], [2]] [[[5]], [[5]], [[1]], [[1]]])
     2 [2] = [4]"
proof -
  let ?x = "[[1], [2], [2], [3::real]]" and ?u = "[[5], [7], [4::real]]"
  define KM where "KM = getRiccatiFeedback demoEnv (hpipmInterface' demoFeedbackSolver)
      (dynamics' demoFeedbackSolver ! 0) (cost' demoFeedbackSolver ! 0)"
  have KM3: "length KM = 3"
    by (simp add: KM_def demoEnv_def demoFeedbackSolver_def)
  have fb: "useFeedbackPolicy (settings' demoFeedbackSolver)"
    by (simp add: demoFeedbackSolver_def)
  have n: "length demoEventNodes = 4" by (simp add: demoEventNodes_def)
  have t: "map time demoEventNodes = [0, 1 / 2, 1 / 2, 1]" by (simp add: demoEventNodes_def)
  from setPrimalSolution_feedback[of demoFeedbackSolver demoEventNodes KM demoEnv ?u ?x,
      OF fb _ KM_def]
  obtain uff gain where
    c: "controllerPtr' (primalSolution'
          (setPrimalSolution demoEnv demoFeedbackSolver demoEventNodes ?x ?u)) =
        Some (LinearController (map time demoEventNodes) uff gain)"
    and r: "\<And>i. i < 3 \<Longrightarrow> event (demoEventNodes ! i) \<noteq> PreEvent \<or> i = 0 \<Longrightarrow>
        length (gain ! i) = length (?u ! i) \<Longrightarrow>
        linearControllerAtNode (LinearController (map time demoEventNodes) uff gain) i (?x ! i) =
          ?u ! i"
    by (auto simp add: n KM3 demoFeedbackSolver_def)
  from c demo_feedback_controller
  have ug: "uff = [[0], [0], [2], [2]]" "gain = [[[5]], [[5]], [[1]], [[1]]]"
    by simp_all
  have "linearControllerAtNode (LinearController (map time demoEventNodes) uff gain) 0 (?x ! 0) =
      ?u ! 0"
    by (rule r) (simp_all add: ug)
  moreover
  have "linearControllerAtNode (LinearController (map time demoEventNodes) uff gain) 2 (?x ! 2) =
      ?u ! 2"
    by (rule r) (simp_all add: ug demoEventNodes_def)
  ultimately show ?thesis
    using demo_feedback_controller by (simp add: ug t)
qed


lemma demo_feedback_inputs:
  "inputTrajectory' (primalSolution'
       (setPrimalSolution demoEnv demoFeedbackSolver demoEventNodes
          [[1], [2], [2], [3]] [[5], [7], [4]])) = [[5], [5], [4], [4]] \<and>
   stateTrajectory' (primalSolution'
       (setPrimalSolution demoEnv demoFeedbackSolver demoEventNodes
          [[1], [2], [2], [3]] [[5], [7], [4]])) = [[1], [2], [2], [3]]"
  by (simp add: setPrimalSolution_def Let_def demoFeedbackSolver_def demoSolver_def
      demoSettings_def demoEventNodes_def nominalStage_def upt_rec[of _ "numeral _"])

text \<open>
  The claim as it is written lets the controller reproduce the nominal input at each grid
  node. On the example grid the last node holds the repeated pair of stage 2, and the
  controller evaluated there at \<open>x\<^sub>3\<close> returns 5 while the stored input is 4.
\<close>

theorem controller_at_every_node_counterexample:
  "\<not> (let ps = primalSolution'
                 (setPrimalSolution demoEnv demoFeedbackSolver demoEventNodes
                    [[1], [2], [2], [3]] [[5], [7], [4]])
       in \<forall>i<length demoEventNodes.
            linearControllerAtNode (the (controllerPtr' ps)) i (stateTrajectory' ps ! i) =
              inputTrajectory' ps ! i)"
proof -
  have "linearControllerAtNode
      (LinearController [0, 1 / 2, 1 / 2, 1] [[0], [0], [2], [2]] [[[5]], [[5]], [[1]], [[1]]])
      3 ([[1], [2], [2], [3]] ! 3) \<noteq> [[5], [5], [4], [4]] ! 3"
    by (simp add: linearControllerAtNode_def vec_add_def mat_vec_def dot_def numeral_3_eq_3)
  moreover have "3 < length demoEventNodes" by (simp add: demoEventNodes_def)
  ultimately show ?thesis
    unfolding Let_def demo_feedback_controller
    using demo_feedback_inputs by (metis option.sel)
qed


section \<open>The line search\<close>

lemma foldl_update_nth:
  "length (foldl (\<lambda>acc i. if c i then acc[i := v i] else acc) xs [0..<k]) = length xs \<and>
   (\<forall>i<length xs. foldl (\<lambda>acc i. if c i then acc[i := v i] else acc) xs [0..<k] ! i =
      (if i < k \<and> c i then v i else xs ! i))"
proof (induction k)
  case 0
  then show ?case by simp
next
  case (Suc k)
  define acc where "acc = foldl (\<lambda>acc i. if c i then acc[i := v i] else acc) xs [0..<k]"
  from Suc have len: "length acc = length xs"
    and nth: "\<And>i. i < length xs \<Longrightarrow> acc ! i = (if i < k \<and> c i then v i else xs ! i)"
    by (simp_all add: acc_def)
  have step: "foldl (\<lambda>acc i. if c i then acc[i := v i] else acc) xs [0..<Suc k] =
      (if c k then acc[k := v k] else acc)"
    by (simp add: acc_def)
  have "(if c k then acc[k := v k] else acc) ! i =
      (if i < Suc k \<and> c i then v i else xs ! i)" if "i < length xs" for i
    using that len nth[of i] by (cases "i = k") (auto simp add: nth_list_update less_Suc_eq)
  then show ?case
    unfolding step using len by simp
qed

lemma stepX_nth:
  "length (stepX alpha x dx xNew) = length xNew"
  "i < length x \<Longrightarrow> i < length xNew \<Longrightarrow>
     stepX alpha x dx xNew ! i = vec_add (x ! i) (vec_scale alpha (dx ! i))"
  using foldl_update_nth[of "\<lambda>i. True" "\<lambda>i. vec_add (x ! i) (vec_scale alpha (dx ! i))" xNew
      "length x"]
  by (simp_all add: stepX_def)

lemma stepU_nth:
  "length (stepU alpha u du uNew) = length uNew"
  "i < length u \<Longrightarrow> i < length uNew \<Longrightarrow>
     stepU alpha u du uNew ! i =
       (if length (du ! i) > 0 then vec_add (u ! i) (vec_scale alpha (du ! i)) else uNew ! i)"
  using foldl_update_nth[of "\<lambda>i. length (du ! i) > 0"
      "\<lambda>i. vec_add (u ! i) (vec_scale alpha (du ! i))" uNew "length u"]
  by (simp_all add: stepU_def)


lemma buffers_step:
  assumes "buffersFit du x u xNew uNew"
  shows "stepX alpha x dx xNew = trialState alpha x dx"
    and "stepU alpha u du uNew = trialInput alpha u du"
    and "buffersFit du x u (trialState alpha x dx) (trialInput alpha u du)"
proof -
  from assms have lx: "length xNew = length x" and lu: "length uNew = length u"
    and e: "\<And>i. i < length u \<Longrightarrow> length (du ! i) = 0 \<Longrightarrow> uNew ! i = []"
    by (simp_all add: buffersFit_def)
  show "stepX alpha x dx xNew = trialState alpha x dx"
    unfolding trialState_def
    by (rule nth_equalityI) (simp_all add: stepX_nth lx)
  show "stepU alpha u du uNew = trialInput alpha u du"
    unfolding trialInput_def
    by (rule nth_equalityI) (auto simp add: stepU_nth lu e)
  show "buffersFit du x u (trialState alpha x dx) (trialInput alpha u du)"
    by (simp add: buffersFit_def trialState_def trialInput_def stepX_nth stepU_nth)
qed

lemma buffers_initial: "buffersFit du x u (replicate (length x) []) (replicate (length u) [])"
  by (simp add: buffersFit_def)

lemma takeStepLoop_unfold:
  assumes "buffersFit du x u xNew uNew"
  shows "takeStepLoop env s baseline timeDiscretization initState dx du x u alpha xNew uNew =
     (if trialContinues env s baseline timeDiscretization initState dx du x u alpha
      then takeStepLoop env s baseline timeDiscretization initState dx du x u
             (alpha * alpha_decay (settings' s)) (trialState alpha x dx) (trialInput alpha u du)
      else Some (trialResult env s baseline timeDiscretization initState dx du x u alpha))"
  by (subst takeStepLoop.simps)
     (simp add: Let_def buffers_step[OF assms] trialContinues_def trialAccepted_def
        trialPerformance_def trialResult_def)

lemma takeStepLoop_trials:
  assumes "buffersFit du x u xNew uNew"
    and "\<forall>j<k. trialContinues env s baseline timeDiscretization initState dx du x u
            (alpha * alpha_decay (settings' s) ^ j)"
    and "\<not> trialContinues env s baseline timeDiscretization initState dx du x u
            (alpha * alpha_decay (settings' s) ^ k)"
  shows "takeStepLoop env s baseline timeDiscretization initState dx du x u alpha xNew uNew =
     Some (trialResult env s baseline timeDiscretization initState dx du x u
             (alpha * alpha_decay (settings' s) ^ k))"
  using assms
proof (induction k arbitrary: alpha xNew uNew)
  case 0
  then show ?case by (simp add: takeStepLoop_unfold)
next
  case (Suc k)
  from Suc.prems(2) have c0: "trialContinues env s baseline timeDiscretization initState dx du x u alpha"
    by (metis mult.right_neutral power_0 zero_less_Suc)
  have pre: "\<forall>j<k. trialContinues env s baseline timeDiscretization initState dx du x u
            (alpha * alpha_decay (settings' s) * alpha_decay (settings' s) ^ j)"
    using Suc.prems(2) by (auto simp add: mult.assoc dest: spec[of _ "Suc _"])
  have stop: "\<not> trialContinues env s baseline timeDiscretization initState dx du x u
            (alpha * alpha_decay (settings' s) * alpha_decay (settings' s) ^ k)"
    using Suc.prems(3) by (simp add: mult.assoc)
  show ?case
    using Suc.IH[OF buffers_step(3)[OF Suc.prems(1)] pre stop] c0
    by (simp add: takeStepLoop_unfold[OF Suc.prems(1)] mult.assoc)
qed


lemma takeStepLoop_returns:
  assumes "takeStepLoop env s baseline timeDiscretization initState dx du x u alpha xNew uNew =
      Some r"
  shows "buffersFit du x u xNew uNew \<longrightarrow>
     (\<exists>k. (\<forall>j<k. trialContinues env s baseline timeDiscretization initState dx du x u
                     (alpha * alpha_decay (settings' s) ^ j)) \<and>
          \<not> trialContinues env s baseline timeDiscretization initState dx du x u
                     (alpha * alpha_decay (settings' s) ^ k) \<and>
          r = trialResult env s baseline timeDiscretization initState dx du x u
                     (alpha * alpha_decay (settings' s) ^ k))"
  apply (rule takeStepLoop.raw_induct[where
      xa = "(((((((((((env, s), baseline), timeDiscretization), initState), dx), du), x), u),
              alpha), xNew), uNew)"
      and y = r
      and P = "\<lambda>env s baseline timeDiscretization initState dx du x u alpha xNew uNew r.
        buffersFit du x u xNew uNew \<longrightarrow>
        (\<exists>k. (\<forall>j<k. trialContinues env s baseline timeDiscretization initState dx du x u
                     (alpha * alpha_decay (settings' s) ^ j)) \<and>
          \<not> trialContinues env s baseline timeDiscretization initState dx du x u
                     (alpha * alpha_decay (settings' s) ^ k) \<and>
          r = trialResult env s baseline timeDiscretization initState dx du x u
                     (alpha * alpha_decay (settings' s) ^ k))", simplified])
  subgoal premises prems for loop env s baseline timeDiscretization initState dx du x u alpha xNew uNew r
  proof
    assume bf: "buffersFit du x u xNew uNew"
    let ?d = "alpha_decay (settings' s)"
    let ?cont = "trialContinues env s baseline timeDiscretization initState dx du x u"
    let ?res = "trialResult env s baseline timeDiscretization initState dx du x u"
    have body: "(if ?cont alpha
          then loop env s baseline timeDiscretization initState dx du x u (alpha * ?d)
                 (trialState alpha x dx) (trialInput alpha u du)
          else Some (?res alpha)) = Some r"
      using prems(2)
      by (auto simp add: Let_def buffers_step[OF bf] trialContinues_def trialAccepted_def
          trialPerformance_def trialResult_def split: if_splits)
    show "\<exists>k. (\<forall>j<k. ?cont (alpha * ?d ^ j)) \<and> \<not> ?cont (alpha * ?d ^ k) \<and>
              r = ?res (alpha * ?d ^ k)"
    proof (cases "?cont alpha")
      case False
      with body have "r = ?res alpha" by simp
      with False show ?thesis by (intro exI[of _ 0]) simp
    next
      case True
      with body have "loop env s baseline timeDiscretization initState dx du x u (alpha * ?d)
                 (trialState alpha x dx) (trialInput alpha u du) = Some r" by simp
      from prems(1)[OF this] buffers_step(3)[OF bf]
      obtain k where pre: "\<And>j. j < k \<Longrightarrow> ?cont (alpha * ?d * ?d ^ j)"
        and stop: "\<not> ?cont (alpha * ?d * ?d ^ k)" and r: "r = ?res (alpha * ?d * ?d ^ k)"
        by blast
      have "?cont (alpha * ?d ^ j)" if "j < Suc k" for j
      proof (cases j)
        case 0
        with True show ?thesis by simp
      next
        case (Suc j')
        with that pre[of j'] show ?thesis by (simp add: mult.assoc)
      qed
      moreover have "\<not> ?cont (alpha * ?d ^ Suc k)" using stop by (simp add: mult.assoc)
      moreover have "r = ?res (alpha * ?d ^ Suc k)" using r by (simp add: mult.assoc)
      ultimately show ?thesis by blast
    qed
  qed
  by (rule assms)


lemma trialState_nth:
  "length (trialState alpha x dx) = length x"
  "i < length x \<Longrightarrow> trialState alpha x dx ! i = vec_add (x ! i) (vec_scale alpha (dx ! i))"
  by (simp_all add: trialState_def stepX_nth)

lemma trialInput_nth:
  "length (trialInput alpha u du) = length u"
  "i < length u \<Longrightarrow> trialInput alpha u du ! i =
     (if du ! i \<noteq> [] then vec_add (u ! i) (vec_scale alpha (du ! i)) else [])"
  by (simp_all add: trialInput_def stepU_nth)

lemma demo_trial_points:
  "trialState alpha [[0], [0]] [[0], [0]] = [[0], [0]]"
  "trialInput alpha [[c]] [[d]] = [[c + alpha * d]]"
  by (simp_all add: trialState_def trialInput_def stepX_def stepU_def vec_add_def vec_scale_def
      upt_rec[of _ "numeral _"] numeral_2_eq_2)

lemma demo_trialPerformance:
  "trialPerformance demoEnv demoSolver demoNodes [0] [[0], [0]] [[d]] [[0], [0]] [[c]] alpha =
     demoBaselineAt ((c + alpha * d) * (c + alpha * d))"
proof -
  have sq: "(- c - alpha * d) * (- c - alpha * d) = (c + alpha * d) * (c + alpha * d)"
    by (simp add: algebra_simps)
  show ?thesis
    unfolding trialPerformance_def demo_trial_points
    by (simp add: demo_performance_defs demoBaselineAt_def sq)
qed

lemma demo_baseline:
  "fst (setupQuadraticSubproblem demoEnv demoSolver demoNodes [0] [[0], [0]] [[c]]) =
     demoBaselineAt (c * c)"
  by (simp add: setupQuadraticSubproblem_def sumPerformance_def parallelPerformance_def
      workerPerformance_def workerStages_def runsTerminal_def setupStage_def setupTerminal_def
      demoTranscription_def demoEnv_def demoSolver_def demoNodes_def demoSettings_def
      demoPerformance_def PerformanceIndex_default_def perf_add_def squaredNorm_def vec_sub_def
      vec_add_def Let_def demoBaselineAt_def)

lemma demo_trialAccepted:
  "trialAccepted demoEnv demoSolver (demoBaselineAt b) demoNodes [0] [[0], [0]] [[d]]
       [[0], [0]] [[c]] alpha \<longleftrightarrow>
     (let m = (c + alpha * d) * (c + alpha * d) in
      \<bar>c + alpha * d\<bar> \<le> 2 \<and>
      (if \<bar>c + alpha * d\<bar> < 1 then m < b
       else m < b - sqrt b / 2 \<or> \<bar>c + alpha * d\<bar> < sqrt b / 2))"
  unfolding trialAccepted_def demo_trialPerformance
  by (simp add: stepAccepted_def constraintViolation_def demoBaselineAt_def demoSolver_def
      demoSettings_def Let_def not_less)

lemma demo_stepSizeBelowTol:
  "stepSizeBelowTol (settings' demoSolver) [[0], [0]] [[d]] alpha \<longleftrightarrow> alpha * \<bar>d\<bar> < 1 / 8 \<and> 0 < (1::real)"
  by (simp add: stepSizeBelowTol_def trajectoryNorm_def squaredNorm_def demoSolver_def
      demoSettings_def)

lemma demo_settings: "settings' demoSolver = demoSettings"
  by (simp add: demoSolver_def)

lemma demo_decay:
  "alpha_decay (settings' demoSolver) = 1 / 2" "alpha_min (settings' demoSolver) = 1 / 4"
  by (simp_all add: demoSolver_def demoSettings_def)

lemma demo_improvementBelowTol:
  "improvementBelowTol (settings' demoSolver) (demoBaselineAt b) (demoBaselineAt m) \<longleftrightarrow>
     \<bar>b - m\<bar> < 1 / 8 \<and> sqrt m < 1"
  by (simp add: improvementBelowTol_def demoBaselineAt_def constraintViolation_def
      demo_settings demoSettings_def)

lemma demo_takeStep_rejected:
  "takeStep demoEnv demoSolver (demoBaselineAt 0) demoNodes [0] [[0], [0]] [[1]] [[0], [0]] [[0]] =
     Some (True, [[0], [0]], [[0]])"
proof -
  have "takeStepLoop demoEnv demoSolver (demoBaselineAt 0) demoNodes [0] [[0], [0]] [[1]]
      [[0], [0]] [[0]] 1 (replicate (length [[0], [0::real]]) []) (replicate (length [[0::real]]) []) =
    Some (trialResult demoEnv demoSolver (demoBaselineAt 0) demoNodes [0] [[0], [0]] [[1]]
      [[0], [0]] [[0]] (1 * alpha_decay (settings' demoSolver) ^ 1))"
    by (rule takeStepLoop_trials[OF buffers_initial])
       (simp_all add: trialContinues_def demo_trialAccepted demo_stepSizeBelowTol demo_decay)
  then show ?thesis
    by (simp add: takeStep_def trialResult_def demo_trialAccepted demo_decay)
qed

lemma demo_takeStep_accepted:
  "takeStep demoEnv demoSolver (demoBaselineAt 1) demoNodes [0] [[0], [0]] [[-1]] [[0], [0]] [[1]] =
     Some (False, [[0], [0]], [[0]])"
proof -
  have "takeStepLoop demoEnv demoSolver (demoBaselineAt 1) demoNodes [0] [[0], [0]] [[-1]]
      [[0], [0]] [[1]] 1 (replicate (length [[0], [0::real]]) []) (replicate (length [[1::real]]) []) =
    Some (trialResult demoEnv demoSolver (demoBaselineAt 1) demoNodes [0] [[0], [0]] [[-1]]
      [[0], [0]] [[1]] (1 * alpha_decay (settings' demoSolver) ^ 0))"
    by (rule takeStepLoop_trials[OF buffers_initial])
       (simp_all add: trialContinues_def demo_trialAccepted)
  then show ?thesis
    by (simp add: takeStep_def trialResult_def demo_trialAccepted demo_stepSizeBelowTol
        demo_trialPerformance demo_trial_points demo_improvementBelowTol)
qed

text \<open>
  A trial on the grid with an event: the state step is zero, the input step of the
  pre-event stage is empty, and the other two input steps cancel the inputs.
\<close>

lemma demo_event_trial_points:
  "trialState 1 [[0], [0], [0], [0]] [[0], [0], [0], [0]] = [[0], [0], [0], [0]]"
  "trialInput 1 [[1], [7], [1]] [[- 1], [], [- 1]] = [[0], [], [0]]"
  by (simp_all add: trialState_def trialInput_def stepX_def stepU_def vec_add_def vec_scale_def
      upt_rec[of _ "numeral _"])

lemma demo_event_trialPerformance:
  "computePerformance demoEnv demoSolver demoEventNodes [0] [[0], [0], [0], [0]] [[0], [], [0]] =
     demoBaselineAt 0"
  by (simp add: demo_performance_defs demoEventNodes_def demoBaselineAt_def
      upt_rec[of _ "numeral _"])

lemma demo_event_baseline:
  "fst (setupQuadraticSubproblem demoEnv demoSolver demoEventNodes [0] [[0], [0], [0], [0]]
         [[1], [7], [1]]) = demoBaselineAt 2"
  by (simp add: setupQuadraticSubproblem_def sumPerformance_def parallelPerformance_def
      workerPerformance_def workerStages_def runsTerminal_def setupStage_def setupTerminal_def
      demoTranscription_def demoEnv_def demoSolver_def demoEventNodes_def demoSettings_def
      demoPerformance_def PerformanceIndex_default_def perf_add_def squaredNorm_def vec_sub_def
      vec_add_def Let_def demoBaselineAt_def upt_rec[of _ "numeral _"])

lemma demo_event_accepted:
  "trialAccepted demoEnv demoSolver (demoBaselineAt 2) demoEventNodes [0]
     [[0], [0], [0], [0]] [[- 1], [], [- 1]] [[0], [0], [0], [0]] [[1], [7], [1]] 1"
  unfolding trialAccepted_def trialPerformance_def demo_event_trial_points
    demo_event_trialPerformance
  by (simp add: stepAccepted_def constraintViolation_def demoBaselineAt_def demo_settings
      demoSettings_def)

lemma demo_event_takeStep:
  "takeStep demoEnv demoSolver (demoBaselineAt 2) demoEventNodes [0]
     [[0], [0], [0], [0]] [[- 1], [], [- 1]] [[0], [0], [0], [0]] [[1], [7], [1]] =
   Some (False, [[0], [0], [0], [0]], [[0], [], [0]])"
proof -
  have "1 \<le> sqrt (2::real)"
    by simp
  then have big: "\<not> sqrt 2 * 8 < (1::real)"
    by linarith
  have loop: "takeStepLoop demoEnv demoSolver (demoBaselineAt 2) demoEventNodes [0]
      [[0], [0], [0], [0]] [[- 1], [], [- 1]] [[0], [0], [0], [0]] [[1], [7], [1]] 1
      (replicate (length [[0], [0], [0], [0::real]]) [])
      (replicate (length [[1], [7], [1::real]]) []) =
    Some (trialResult demoEnv demoSolver (demoBaselineAt 2) demoEventNodes [0]
      [[0], [0], [0], [0]] [[- 1], [], [- 1]] [[0], [0], [0], [0]] [[1], [7], [1]]
      (1 * alpha_decay (settings' demoSolver) ^ 0))"
    by (rule takeStepLoop_trials[OF buffers_initial])
       (simp_all add: trialContinues_def demo_event_accepted)
  have result: "trialResult demoEnv demoSolver (demoBaselineAt 2) demoEventNodes [0]
      [[0], [0], [0], [0]] [[- 1], [], [- 1]] [[0], [0], [0], [0]] [[1], [7], [1]] 1 =
      (False, [[0], [0], [0], [0]], [[0], [], [0]])"
    unfolding trialResult_def trialPerformance_def demo_event_trial_points
      demo_event_trialPerformance
    using demo_event_accepted
    by (simp add: stepSizeBelowTol_def improvementBelowTol_def trajectoryNorm_def
        squaredNorm_def demoBaselineAt_def constraintViolation_def demo_settings
        demoSettings_def big)
  from loop show ?thesis
    by (simp add: takeStep_def result)
qed

text \<open>
  C2, as the code has it. Trial \<open>j\<close> of \<open>takeStep\<close> uses the step size \<open>alpha_decay ^ j\<close>.
  Suppose the trials before trial \<open>k\<close> are rejected with a step norm that is not below \<open>deltaTol\<close> and a next step size
  above \<open>alpha_min\<close>, and trial \<open>k\<close> is accepted, or has both step norms below \<open>deltaTol\<close>, or
  has a next step size that is not above \<open>alpha_min\<close>. Then \<open>takeStep\<close> returns. If trial \<open>k\<close>
  is accepted it commits \<open>x + alpha * dx\<close> and, stage by stage, \<open>u + alpha * du\<close> where the input
  step is not empty and the empty vector where it is empty (the buffer entry is never
  written there), and reports convergence exactly when both step norms are below \<open>deltaTol\<close>
  or the merit changed by less than \<open>costTol\<close> with a violation below \<open>g_min\<close>. Otherwise it
  reports convergence and leaves \<open>x\<close> and \<open>u\<close> as they were.
\<close>

theorem takeStep_trials:
  assumes sizes: "length dx = length x" "length du = length u"
    and rejected: "\<forall>j<k.
        \<not> trialAccepted env s baseline timeDiscretization initState dx du x u
            (alpha_decay (settings' s) ^ j) \<and>
        \<not> stepSizeBelowTol (settings' s) dx du (alpha_decay (settings' s) ^ j) \<and>
        alpha_min (settings' s) < alpha_decay (settings' s) ^ j * alpha_decay (settings' s)"
    and last: "trialAccepted env s baseline timeDiscretization initState dx du x u
            (alpha_decay (settings' s) ^ k) \<or>
        stepSizeBelowTol (settings' s) dx du (alpha_decay (settings' s) ^ k) \<or>
        \<not> alpha_min (settings' s) < alpha_decay (settings' s) ^ k * alpha_decay (settings' s)"
  shows "(let alpha = alpha_decay (settings' s) ^ k;
              xNew = trialState alpha x dx;
              uNew = trialInput alpha u du;
              performanceNew = computePerformance env s timeDiscretization initState xNew uNew
          in takeStep env s baseline timeDiscretization initState dx du x u =
               Some (if stepAccepted (settings' s) baseline performanceNew
                     then
                       ((alpha * trajectoryNorm du < deltaTol (settings' s) \<and>
                         alpha * trajectoryNorm dx < deltaTol (settings' s)) \<or>
                        (\<bar>merit baseline - merit performanceNew\<bar> < costTol (settings' s) \<and>
                         constraintViolation performanceNew < g_min (settings' s)),
                        xNew, uNew)
                     else (True, x, u)) \<and>
             length xNew = length x \<and> length uNew = length u \<and>
             (\<forall>i<length x. xNew ! i = vec_add (x ! i) (vec_scale alpha (dx ! i))) \<and>
             (\<forall>i<length u. uNew ! i =
                (if du ! i \<noteq> [] then vec_add (u ! i) (vec_scale alpha (du ! i)) else [])))"
proof -
  have "takeStep env s baseline timeDiscretization initState dx du x u =
      Some (trialResult env s baseline timeDiscretization initState dx du x u
              (1 * alpha_decay (settings' s) ^ k))"
    unfolding takeStep_def
    by (rule takeStepLoop_trials[OF buffers_initial])
       (use rejected last in \<open>simp_all add: trialContinues_def\<close>)
  then show ?thesis
    by (simp add: Let_def trialResult_def trialAccepted_def trialPerformance_def
        stepSizeBelowTol_def improvementBelowTol_def trialState_nth trialInput_nth)
qed

theorem takeStep_trials_witness:
  "takeStep demoEnv demoSolver (demoBaselineAt 0) demoNodes [0] [[0], [0]] [[1]] [[0], [0]] [[0]] =
     Some (True, [[0], [0]], [[0]]) \<and>
   takeStep demoEnv demoSolver (demoBaselineAt 1) demoNodes [0] [[0], [0]] [[-1]] [[0], [0]] [[1]] =
     Some (False, [[0], [0]], [[0]]) \<and>
   takeStep demoEnv demoSolver (demoBaselineAt 2) demoEventNodes [0]
     [[0], [0], [0], [0]] [[- 1], [], [- 1]] [[0], [0], [0], [0]] [[1], [7], [1]] =
     Some (False, [[0], [0], [0], [0]], [[0], [], [0]])"
proof -
  let ?d = "alpha_decay (settings' demoSolver)"
  let ?x = "[[0], [0::real]]"
  let ?y = "[[0], [0], [0], [0::real]]"
  let ?u = "[[1], [7], [1::real]]"
  let ?du = "[[- 1], [], [- 1::real]]"
  have r1: "\<forall>j<1.
        \<not> trialAccepted demoEnv demoSolver (demoBaselineAt 0) demoNodes [0] ?x [[1]] ?x [[0]]
            (?d ^ j) \<and>
        \<not> stepSizeBelowTol (settings' demoSolver) ?x [[1]] (?d ^ j) \<and>
        alpha_min (settings' demoSolver) < ?d ^ j * ?d"
    by (simp add: demo_trialAccepted demo_stepSizeBelowTol demo_decay)
  have l1: "trialAccepted demoEnv demoSolver (demoBaselineAt 0) demoNodes [0] ?x [[1]] ?x [[0]]
            (?d ^ 1) \<or>
        stepSizeBelowTol (settings' demoSolver) ?x [[1]] (?d ^ 1) \<or>
        \<not> alpha_min (settings' demoSolver) < ?d ^ 1 * ?d"
    by (simp add: demo_decay)
  have n1: "\<not> trialAccepted demoEnv demoSolver (demoBaselineAt 0) demoNodes [0] ?x [[1]] ?x [[0]]
            (?d ^ 1)"
    by (simp add: demo_trialAccepted demo_decay)
  have a: "takeStep demoEnv demoSolver (demoBaselineAt 0) demoNodes [0] ?x [[1]] ?x [[0]] =
      Some (True, ?x, [[0]])"
    using takeStep_trials[OF _ _ r1 l1] n1
    by (simp add: Let_def trialAccepted_def trialPerformance_def)
  have r2: "\<forall>j<0.
        \<not> trialAccepted demoEnv demoSolver (demoBaselineAt 1) demoNodes [0] ?x [[-1]] ?x [[1]]
            (?d ^ j) \<and>
        \<not> stepSizeBelowTol (settings' demoSolver) ?x [[-1]] (?d ^ j) \<and>
        alpha_min (settings' demoSolver) < ?d ^ j * ?d"
    by simp
  have y2: "trialAccepted demoEnv demoSolver (demoBaselineAt 1) demoNodes [0] ?x [[-1]] ?x [[1]]
            (?d ^ 0)"
    by (simp add: demo_trialAccepted)
  then have l2: "trialAccepted demoEnv demoSolver (demoBaselineAt 1) demoNodes [0] ?x [[-1]] ?x [[1]]
            (?d ^ 0) \<or>
        stepSizeBelowTol (settings' demoSolver) ?x [[-1]] (?d ^ 0) \<or>
        \<not> alpha_min (settings' demoSolver) < ?d ^ 0 * ?d"
    by blast
  have sx: "length ?x = length ?x" and su: "length [[-1::real]] = length [[1::real]]"
    by simp_all
  have b: "takeStep demoEnv demoSolver (demoBaselineAt 1) demoNodes [0] ?x [[-1]] ?x [[1]] =
      Some (False, ?x, [[0]])"
    using takeStep_trials[OF sx su r2 l2, unfolded Let_def, THEN conjunct1]
      y2[unfolded trialAccepted_def trialPerformance_def]
    by (simp add: demo_trial_points demo_computePerformance_rest demoBaselineAt_def
        constraintViolation_def
        trajectoryNorm_def squaredNorm_def demo_settings demoSettings_def)
  have r3: "\<forall>j<0.
        \<not> trialAccepted demoEnv demoSolver (demoBaselineAt 2) demoEventNodes [0] ?y ?du ?y ?u
            (?d ^ j) \<and>
        \<not> stepSizeBelowTol (settings' demoSolver) ?y ?du (?d ^ j) \<and>
        alpha_min (settings' demoSolver) < ?d ^ j * ?d"
    by simp
  have y3: "trialAccepted demoEnv demoSolver (demoBaselineAt 2) demoEventNodes [0] ?y ?du ?y ?u
            (?d ^ 0)"
    using demo_event_accepted by simp
  then have l3: "trialAccepted demoEnv demoSolver (demoBaselineAt 2) demoEventNodes [0]
            ?y ?du ?y ?u (?d ^ 0) \<or>
        stepSizeBelowTol (settings' demoSolver) ?y ?du (?d ^ 0) \<or>
        \<not> alpha_min (settings' demoSolver) < ?d ^ 0 * ?d"
    by blast
  have sy: "length ?y = length ?y" and sv: "length ?du = length ?u"
    by simp_all
  have "1 \<le> sqrt (2::real)"
    by simp
  then have big: "\<not> sqrt 2 * 8 < (1::real)"
    by linarith
  have c: "takeStep demoEnv demoSolver (demoBaselineAt 2) demoEventNodes [0] ?y ?du ?y ?u =
      Some (False, ?y, [[0], [], [0]])"
    using takeStep_trials[OF sy sv r3 l3, unfolded Let_def, THEN conjunct1]
      y3[unfolded trialAccepted_def trialPerformance_def]
    by (simp add: demo_event_trial_points demo_event_trialPerformance demoBaselineAt_def
        constraintViolation_def trajectoryNorm_def squaredNorm_def demo_settings
        demoSettings_def big)
  from a b c show ?thesis by blast
qed

text \<open>
  The claim as it is written commits \<open>u + alpha * du\<close>, which keeps the input of a stage whose
  step is empty. On the grid with an event, \<open>u = [1, 7, 1]\<close> with the steps \<open>[-1, [], -1]\<close>
  is accepted at \<open>alpha = 1\<close> against the baseline that \<open>setupQuadraticSubproblem\<close> returns
  there: as written the committed inputs would be \<open>[0, 7, 0]\<close>; the code commits \<open>[0, [], 0]\<close>,
  the input of the pre-event stage being lost.
\<close>

theorem takeStep_empty_input_step_counterexample:
  "trialAccepted demoEnv demoSolver (demoBaselineAt 2) demoEventNodes [0]
     [[0], [0], [0], [0]] [[- 1], [], [- 1]] [[0], [0], [0], [0]] [[1], [7], [1]] 1 \<and>
   takeStep demoEnv demoSolver (demoBaselineAt 2) demoEventNodes [0]
     [[0], [0], [0], [0]] [[- 1], [], [- 1]] [[0], [0], [0], [0]] [[1], [7], [1]] =
     Some (False, [[0], [0], [0], [0]], [[0], [], [0]]) \<and>
   specTrialInput 1 [[1], [7], [1]] [[- 1], [], [- 1]] = [[0], [7], [0]] \<and>
   takeStep demoEnv demoSolver (demoBaselineAt 2) demoEventNodes [0]
     [[0], [0], [0], [0]] [[- 1], [], [- 1]] [[0], [0], [0], [0]] [[1], [7], [1]] \<noteq>
     Some (False, trialState 1 [[0], [0], [0], [0]] [[0], [0], [0], [0]],
           specTrialInput 1 [[1], [7], [1]] [[- 1], [], [- 1]])"
proof -
  have s: "specTrialInput 1 [[1], [7], [1]] [[- 1], [], [- 1]] = [[0], [7], [0::real]]"
    by (simp add: specTrialInput_def vec_add_def vec_scale_def)
  show ?thesis
    unfolding s using demo_event_accepted demo_event_takeStep by simp
qed


text \<open>
  C10. Whenever \<open>takeStep\<close> returns, it stopped at some trial \<open>k\<close> before which no trial was
  accepted. If trial \<open>k\<close> was accepted, \<open>x\<close> and \<open>u\<close> are the candidate trajectories of that trial;
  if not, the loop ended because the step norms were below \<open>deltaTol\<close> or the next step size
  was not above \<open>alpha_min\<close>, and \<open>x\<close> and \<open>u\<close> are exactly as on entry.
\<close>

theorem takeStep_frame:
  assumes "takeStep env s baseline timeDiscretization initState dx du x u =
      Some (converged, x1, u1)"
  shows "\<exists>k. (\<forall>j<k.
              \<not> trialAccepted env s baseline timeDiscretization initState dx du x u
                  (alpha_decay (settings' s) ^ j)) \<and>
           (if trialAccepted env s baseline timeDiscretization initState dx du x u
                 (alpha_decay (settings' s) ^ k)
            then x1 = trialState (alpha_decay (settings' s) ^ k) x dx \<and>
                 u1 = trialInput (alpha_decay (settings' s) ^ k) u du
            else x1 = x \<and> u1 = u \<and> converged \<and>
                 (stepSizeBelowTol (settings' s) dx du (alpha_decay (settings' s) ^ k) \<or>
                  \<not> alpha_min (settings' s) <
                      alpha_decay (settings' s) ^ k * alpha_decay (settings' s)))"
proof -
  from takeStepLoop_returns[OF assms[unfolded takeStep_def]] buffers_initial
  obtain k where pre: "\<And>j. j < k \<Longrightarrow>
        trialContinues env s baseline timeDiscretization initState dx du x u
          (alpha_decay (settings' s) ^ j)"
    and stop: "\<not> trialContinues env s baseline timeDiscretization initState dx du x u
          (alpha_decay (settings' s) ^ k)"
    and r: "(converged, x1, u1) =
        trialResult env s baseline timeDiscretization initState dx du x u
          (alpha_decay (settings' s) ^ k)"
    by auto
  show ?thesis
    apply (rule exI[of _ k])
    using pre stop r by (auto simp add: trialContinues_def trialResult_def split: if_splits)
qed


theorem takeStep_frame_witness:
  "(\<exists>k. (\<forall>j<k. \<not> trialAccepted demoEnv demoSolver (demoBaselineAt 0) demoNodes [0]
                    [[0], [0]] [[1]] [[0], [0]] [[0]] (alpha_decay (settings' demoSolver) ^ j)) \<and>
        \<not> trialAccepted demoEnv demoSolver (demoBaselineAt 0) demoNodes [0]
                    [[0], [0]] [[1]] [[0], [0]] [[0]] (alpha_decay (settings' demoSolver) ^ k)) \<and>
   (\<exists>k. trialAccepted demoEnv demoSolver (demoBaselineAt 1) demoNodes [0]
            [[0], [0]] [[-1]] [[0], [0]] [[1]] (alpha_decay (settings' demoSolver) ^ k) \<and>
        [[0]] = trialInput (alpha_decay (settings' demoSolver) ^ k) [[1]] [[-1]])"
proof -
  from takeStep_frame[OF demo_takeStep_rejected]
  obtain k where k: "\<forall>j<k. \<not> trialAccepted demoEnv demoSolver (demoBaselineAt 0) demoNodes [0]
                    [[0], [0]] [[1]] [[0], [0]] [[0]] (alpha_decay (settings' demoSolver) ^ j)"
    "if trialAccepted demoEnv demoSolver (demoBaselineAt 0) demoNodes [0]
          [[0], [0]] [[1]] [[0], [0]] [[0]] (alpha_decay (settings' demoSolver) ^ k)
     then [[0], [0]] = trialState (alpha_decay (settings' demoSolver) ^ k) [[0], [0]] [[0], [0]] \<and>
          [[0]] = trialInput (alpha_decay (settings' demoSolver) ^ k) [[0]] [[1]]
     else True"
    by (auto split: if_splits)
  have "\<not> trialAccepted demoEnv demoSolver (demoBaselineAt 0) demoNodes [0]
          [[0], [0]] [[1]] [[0], [0]] [[0]] (alpha_decay (settings' demoSolver) ^ k)"
    by (simp add: demo_trialAccepted Let_def)
  with k(1) have a: "\<exists>k. (\<forall>j<k. \<not> trialAccepted demoEnv demoSolver (demoBaselineAt 0) demoNodes [0]
                    [[0], [0]] [[1]] [[0], [0]] [[0]] (alpha_decay (settings' demoSolver) ^ j)) \<and>
        \<not> trialAccepted demoEnv demoSolver (demoBaselineAt 0) demoNodes [0]
                    [[0], [0]] [[1]] [[0], [0]] [[0]] (alpha_decay (settings' demoSolver) ^ k)"
    by blast
  from takeStep_frame[OF demo_takeStep_accepted]
  have b: "\<exists>k. trialAccepted demoEnv demoSolver (demoBaselineAt 1) demoNodes [0]
            [[0], [0]] [[-1]] [[0], [0]] [[1]] (alpha_decay (settings' demoSolver) ^ k) \<and>
        [[0]] = trialInput (alpha_decay (settings' demoSolver) ^ k) [[1]] [[-1]]"
    by (auto split: if_splits)
  from a b show ?thesis by blast
qed


section \<open>Failure of the QP back-end\<close>

lemma setupQuadraticSubproblem_frame:
  assumes "setupQuadraticSubproblem env s nodes initState x u = (p, s1)"
  shows "primalSolution' s1 = primalSolution' s"
    and "performanceIndeces' s1 = performanceIndeces' s"
    and "settings' s1 = settings' s"
    and "constraintPtr' s1 = constraintPtr' s"
    and "totalNumIterations' s1 = totalNumIterations' s"
  using assms by (auto simp add: setupQuadraticSubproblem_def Let_def)

lemma getOCPSolution_frame:
  "primalSolution' (solverAfter (getOCPSolution env s delta_x0)) = primalSolution' s"
  "performanceIndeces' (solverAfter (getOCPSolution env s delta_x0)) = performanceIndeces' s"
  "settings' (solverAfter (getOCPSolution env s delta_x0)) = settings' s"
  "constraintPtr' (solverAfter (getOCPSolution env s delta_x0)) = constraintPtr' s"
  "totalNumIterations' (solverAfter (getOCPSolution env s delta_x0)) = totalNumIterations' s"
  by (auto simp add: getOCPSolution_def solverAfter_def Let_def split: prod.splits)

lemma getOCPSolution_failure:
  assumes "fst (fst (solveQP env s delta_x0)) \<noteq> SUCCESS"
  shows "getOCPSolution env s delta_x0 =
     Inl (QPFailure, s\<lparr>hpipmInterface' := snd (solveQP env s delta_x0)\<rparr>)"
  using assms by (auto simp add: getOCPSolution_def Let_def split: prod.splits)

lemma sqpIterate_pass_frame:
  assumes "sqpIterate env initState nodes s x u = Some (Inr (converged, s1, x1, u1))"
  shows "primalSolution' s1 = primalSolution' s"
proof -
  obtain p sq where sq: "setupQuadraticSubproblem env s nodes initState x u = (p, sq)"
    by (cases "setupQuadraticSubproblem env s nodes initState x u")
  define s2 where "s2 = sq\<lparr>performanceIndeces' := performanceIndeces' sq @ [p]\<rparr>"
  from assms obtain sol s3 where
    g: "getOCPSolution env s2 (vec_sub initState (x ! 0)) = Inr (sol, s3)"
    and s1: "s1 = s3\<lparr>totalNumIterations' := totalNumIterations' s3 + 1\<rparr>"
    by (auto simp add: sqpIterate_def sq Let_def s2_def split: sum.splits option.splits)
  from getOCPSolution_frame(1)[of env s2 "vec_sub initState (x ! 0)"] g
  have "primalSolution' s3 = primalSolution' s2" by (simp add: solverAfter_def)
  then show ?thesis
    using setupQuadraticSubproblem_frame(1)[OF sq] by (simp add: s1 s2_def)
qed

lemma sqpReaches_loop:
  assumes "sqpReaches env initState nodes c c1"
  shows "sqpLoop env initState nodes (fst c) (fst (snd c)) (fst (snd (snd c))) (snd (snd (snd c))) =
         sqpLoop env initState nodes (fst c1) (fst (snd c1)) (fst (snd (snd c1)))
           (snd (snd (snd c1))) \<and>
         primalSolution' (fst (snd c1)) = primalSolution' (fst (snd c))"
  using assms
proof (induction rule: sqpReaches.induct)
  case (start c)
  then show ?case by simp
next
  case (pass c n s x u s1 x1 u1)
  then show ?case
    using sqpIterate_pass_frame[OF pass.hyps(2)] by simp
qed

text \<open>
  C6. Take any state of the SQP loop that a run on a non-empty grid passes through, with
  at least one iteration left. If the back-end answers the QP assembled in that state with a status
  other than \<open>SUCCESS\<close>, then \<open>runImpl\<close> ends with the error \<open>QPFailure\<close>; the solver it leaves
  behind holds the primal solution it held before the run, and its iteration log consists
  of the entries of the run so far, the entry of the failing iteration included, and can
  be read with \<open>getIterationsLog\<close>.
\<close>

theorem runImpl_QPFailure:
  assumes td: "timeDiscretization =
        timeDiscretizationWithEvents env initTime finalTime (dt (settings' s))
          (eventTimes (modeSchedule s))"
    and x0: "x0 = initializeStateTrajectory env s initState timeDiscretization"
    and u0: "u0 = initializeInputTrajectory env s timeDiscretization x0"
    and grid: "timeDiscretization \<noteq> []"
    and reach: "sqpReaches env initState timeDiscretization
        (sqpIteration (settings' s), s\<lparr>performanceIndeces' := []\<rparr>, x0, u0) (Suc n, si, xi, ui)"
    and assembled: "setupQuadraticSubproblem env si timeDiscretization initState xi ui = (p, sq)"
    and failed: "fst (fst (solveQP env (sq\<lparr>performanceIndeces' := performanceIndeces' si @ [p]\<rparr>)
                  (vec_sub initState (xi ! 0)))) \<noteq> SUCCESS"
  shows "\<exists>s1. runImpl env s initTime initState finalTime partitioningTimes =
             Some (Inl (QPFailure, s1)) \<and>
           primalSolution' s1 = primalSolution' s \<and>
           performanceIndeces' s1 = performanceIndeces' si @ [p] \<and>
           getIterationsLog s1 = Inr (performanceIndeces' si @ [p])"
proof -
  define s2 where "s2 = sq\<lparr>performanceIndeces' := performanceIndeces' si @ [p]\<rparr>"
  define s3 where "s3 = s2\<lparr>hpipmInterface' := snd (solveQP env s2 (vec_sub initState (xi ! 0)))\<rparr>"
  have g: "getOCPSolution env s2 (vec_sub initState (xi ! 0)) = Inl (QPFailure, s3)"
    unfolding s3_def by (rule getOCPSolution_failure) (use failed in \<open>simp add: s2_def\<close>)
  have it: "sqpIterate env initState timeDiscretization si xi ui = Some (Inl (QPFailure, s3))"
    by (simp add: sqpIterate_def assembled Let_def setupQuadraticSubproblem_frame(2)[OF assembled]
        s2_def[symmetric] g)
  have loop: "sqpLoop env initState timeDiscretization (Suc n) si xi ui =
      Some (Inl (QPFailure, s3))"
    by (simp add: it)
  from sqpReaches_loop[OF reach]
  have start: "sqpLoop env initState timeDiscretization (sqpIteration (settings' s))
        (s\<lparr>performanceIndeces' := []\<rparr>) x0 u0 = Some (Inl (QPFailure, s3))"
    and prim: "primalSolution' si = primalSolution' s"
    using loop by simp_all
  have run: "runImpl env s initTime initState finalTime partitioningTimes =
      Some (Inl (QPFailure, s3))"
    by (simp add: runImpl_def Let_def td[symmetric] x0[symmetric] u0[symmetric] start)
  have "primalSolution' s3 = primalSolution' s"
    using setupQuadraticSubproblem_frame(1)[OF assembled] prim by (simp add: s3_def s2_def)
  moreover have "performanceIndeces' s3 = performanceIndeces' si @ [p]"
    by (simp add: s3_def s2_def)
  ultimately show ?thesis
    using run by (simp add: getIterationsLog_def)
qed


lemma computePerformance_cong:
  assumes "settings' s = settings' t" and "constraintPtr' s = constraintPtr' t"
  shows "computePerformance env s = computePerformance env t"
proof -
  have a: "performanceStage env s nodes x u = performanceStage env t nodes x u" for nodes x u
    by (intro ext) (simp add: performanceStage_def Let_def assms)
  have b: "performanceTerminal env s nodes x = performanceTerminal env t nodes x" for nodes x
    by (simp add: performanceTerminal_def Let_def assms)
  show ?thesis
    by (intro ext) (simp add: computePerformance_def parallelPerformance_def a b assms)
qed

lemma demo_setup_first:
  "setupQuadraticSubproblem demoEnv (demoSolver\<lparr>performanceIndeces' := []\<rparr>) demoNodes [0]
       [[0], [0]] [[- 1]] =
     (demoBaselineAt 1, demoAssembled\<lparr>performanceIndeces' := []\<rparr>)"
  by (simp add: setupQuadraticSubproblem_def sumPerformance_def parallelPerformance_def
      workerPerformance_def workerStages_def runsTerminal_def setupStage_def setupTerminal_def
      demoTranscription_def demoEnv_def demoSolver_def demoNodes_def demoSettings_def
      demoPerformance_def PerformanceIndex_default_def perf_add_def squaredNorm_def vec_sub_def
      vec_add_def Let_def demoBaselineAt_def demoAssembled_def)

lemma demo_setup_second:
  "setupQuadraticSubproblem demoEnv demoAfterPass demoNodes [0] [[1], [1]] [[0]] =
     (demoGap, demoAfterPass)"
  by (simp add: setupQuadraticSubproblem_def sumPerformance_def parallelPerformance_def
      workerPerformance_def workerStages_def runsTerminal_def setupStage_def setupTerminal_def
      demoTranscription_def demoEnv_def demoSolver_def demoNodes_def demoSettings_def
      demoPerformance_def PerformanceIndex_default_def perf_add_def squaredNorm_def vec_sub_def
      vec_add_def Let_def demoBaselineAt_def demoAssembled_def demoAfterPass_def demoGap_def)

lemma demo_getOCPSolution_first:
  "getOCPSolution demoEnv (demoAssembled\<lparr>performanceIndeces' := [demoBaselineAt 1]\<rparr>) [0] =
     Inr (([[1], [1]], [[1]]),
          demoAssembled
            \<lparr>performanceIndeces' := [demoBaselineAt 1],
             hpipmInterface' := \<lparr>ocpSize' = 1, requests = [Resize 1, Solve [0] None]\<rparr>\<rparr>)"
  by (simp add: getOCPSolution_def solveQP_def solve_def resize_def demoEnv_def
      demoAssembled_def demoSolver_def demoSettings_def Let_def)


lemma demo_takeStep_pass:
  assumes st: "settings' S = demoSettings" and cp: "constraintPtr' S = [None]"
  shows "takeStep demoEnv S (demoBaselineAt 1) demoNodes [0] [[1], [1]] [[1]] [[0], [0]] [[- 1]] =
     Some (False, [[1], [1]], [[0]])"
proof -
  have pts: "trialState 1 [[0], [0]] [[1], [1]] = [[1], [1]]"
    "trialInput 1 [[- 1]] [[1]] = [[0]]"
    by (simp_all add: trialState_def trialInput_def stepX_def stepU_def vec_add_def
        vec_scale_def upt_rec[of _ "numeral _"] numeral_2_eq_2)
  have cong: "computePerformance demoEnv S = computePerformance demoEnv demoSolver"
    by (rule computePerformance_cong) (simp_all add: st cp demoSolver_def)
  have perf: "trialPerformance demoEnv S demoNodes [0] [[1], [1]] [[1]] [[0], [0]] [[- 1]] 1 =
      demoGap"
    unfolding trialPerformance_def pts cong
    by (simp add: demo_performance_defs demoGap_def)
  have acc: "trialAccepted demoEnv S (demoBaselineAt 1) demoNodes [0] [[1], [1]] [[1]]
      [[0], [0]] [[- 1]] 1"
    unfolding trialAccepted_def perf
    by (simp add: stepAccepted_def constraintViolation_def demoGap_def demoBaselineAt_def st
        demoSettings_def)
  have res: "trialResult demoEnv S (demoBaselineAt 1) demoNodes [0] [[1], [1]] [[1]]
      [[0], [0]] [[- 1]] 1 = (False, [[1], [1]], [[0]])"
  proof -
    have small: "\<not> stepSizeBelowTol (settings' S) [[1], [1]] [[1]] 1"
      by (simp add: stepSizeBelowTol_def trajectoryNorm_def squaredNorm_def st demoSettings_def)
    have improv: "\<not> improvementBelowTol (settings' S) (demoBaselineAt 1) demoGap"
      by (simp add: improvementBelowTol_def demoGap_def demoBaselineAt_def st demoSettings_def)
    show ?thesis
      unfolding trialResult_def perf pts using acc small improv by simp
  qed
  have "takeStepLoop demoEnv S (demoBaselineAt 1) demoNodes [0] [[1], [1]] [[1]]
      [[0], [0]] [[- 1]] 1 (replicate (length [[0], [0::real]]) [])
      (replicate (length [[- 1::real]]) []) =
    Some (trialResult demoEnv S (demoBaselineAt 1) demoNodes [0] [[1], [1]] [[1]]
      [[0], [0]] [[- 1]] (1 * alpha_decay (settings' S) ^ 0))"
    by (rule takeStepLoop_trials[OF buffers_initial]) (simp_all add: trialContinues_def acc)
  then show ?thesis
    by (simp add: takeStep_def res)
qed

lemma demo_pass:
  "sqpIterate demoEnv [0] demoNodes (demoSolver\<lparr>performanceIndeces' := []\<rparr>) [[0], [0]] [[- 1]] =
     Some (Inr (False, demoAfterPass, [[1], [1]], [[0]]))"
proof -
  let ?s3 = "demoAssembled
            \<lparr>performanceIndeces' := [demoBaselineAt 1],
             hpipmInterface' := \<lparr>ocpSize' = 1, requests = [Resize 1, Solve [0] None]\<rparr>\<rparr>"
  have t: "takeStep demoEnv ?s3 (demoBaselineAt 1) demoNodes [0] [[1], [1]] [[1]]
      [[0], [0]] [[- 1]] = Some (False, [[1], [1]], [[0]])"
    by (rule demo_takeStep_pass) (simp_all add: demoAssembled_def demoSolver_def)
  have n: "totalNumIterations' demoAssembled = 0"
    by (simp add: demoAssembled_def demoSolver_def)
  show ?thesis
    unfolding sqpIterate_def demo_setup_first
    by (simp add: Let_def vec_sub_def demo_getOCPSolution_first t demoAfterPass_def n
        del: One_nat_def)
qed

lemma demo_second_fails:
  "fst (fst (solveQP demoEnv
       (demoAfterPass\<lparr>performanceIndeces' := performanceIndeces' demoAfterPass @ [demoGap]\<rparr>)
       (vec_sub [0] ([[1], [1]] ! 0)))) \<noteq> SUCCESS"
  by (simp add: solveQP_def solve_def resize_def demoEnv_def demoAfterPass_def demoAssembled_def
      demoSolver_def demoSettings_def)

lemma demo_run_start:
  "timeDiscretizationWithEvents demoEnv 0 1 (dt (settings' demoSolver))
     (eventTimes (modeSchedule demoSolver)) = demoNodes"
  "initializeStateTrajectory demoEnv demoSolver [0] demoNodes = [[0], [0]]"
  "initializeInputTrajectory demoEnv demoSolver demoNodes [[0], [0]] = [[- 1]]"
  "sqpIteration (settings' demoSolver) = Suc (Suc 0)"
  by (simp_all add: demoEnv_def demoNodes_def initializeStateTrajectory_def
      initializeInputTrajectory_def demoSolver_def demoSettings_def numeral_2_eq_2)

theorem runImpl_QPFailure_witness:
  "\<exists>s1. runImpl demoEnv demoSolver 0 [0] 1 [] = Some (Inl (QPFailure, s1)) \<and>
        primalSolution' s1 = primalSolution' demoSolver \<and>
        getIterationsLog s1 = Inr [demoBaselineAt 1, demoGap]"
proof -
  have reach: "sqpReaches demoEnv [0] demoNodes
      (sqpIteration (settings' demoSolver), demoSolver\<lparr>performanceIndeces' := []\<rparr>,
       [[0], [0]], [[- 1]])
      (Suc 0, demoAfterPass, [[1], [1]], [[0]])"
    unfolding demo_run_start(4)
    by (rule sqpReaches.pass[OF sqpReaches.start demo_pass])
  have grid: "demoNodes \<noteq> []" by (simp add: demoNodes_def)
  from runImpl_QPFailure[OF demo_run_start(1)[symmetric] demo_run_start(2)[symmetric]
      demo_run_start(3)[symmetric] grid reach demo_setup_second demo_second_fails, of "[]"]
  have "\<exists>s1. runImpl demoEnv demoSolver 0 [0] 1 [] = Some (Inl (QPFailure, s1)) \<and>
        primalSolution' s1 = primalSolution' demoSolver \<and>
        performanceIndeces' s1 = [demoBaselineAt 1, demoGap] \<and>
        getIterationsLog s1 = Inr [demoBaselineAt 1, demoGap]"
    by (simp add: demoAfterPass_def)
  then show ?thesis by blast
qed


section \<open>The trajectories handed to the solution builder\<close>

text \<open>
  The line search keeps the lengths of the trajectories, so on a grid of at least two nodes
  a run that returns has called \<open>setPrimalSolution\<close> with a state for every node and an input
  for every node but the last.
\<close>

lemma takeStep_lengths:
  assumes "takeStep env s baseline timeDiscretization initState dx du x u = Some (c, x1, u1)"
  shows "length x1 = length x \<and> length u1 = length u"
proof -
  from takeStepLoop_returns[OF assms[unfolded takeStep_def]] buffers_initial
  obtain k where "(c, x1, u1) =
      trialResult env s baseline timeDiscretization initState dx du x u
        (1 * alpha_decay (settings' s) ^ k)"
    by blast
  then show ?thesis
    by (auto simp add: trialResult_def trialState_nth trialInput_nth split: if_splits)
qed

lemma sqpIterate_lengths:
  assumes "sqpIterate env initState nodes s x u = Some (Inr (c, s1, x1, u1))"
  shows "length x1 = length x \<and> length u1 = length u"
  using assms
  by (auto simp add: sqpIterate_def Let_def split: prod.splits sum.splits option.splits
      dest: takeStep_lengths)

lemma sqpLoop_lengths:
  assumes "sqpLoop env initState nodes n s x u = Some (Inr (s1, x1, u1))"
  shows "length x1 = length x \<and> length u1 = length u"
  using assms
proof (induction n arbitrary: s x u)
  case 0
  then show ?case by simp
next
  case (Suc n)
  from Suc.prems obtain c s2 x2 u2 where
    it: "sqpIterate env initState nodes s x u = Some (Inr (c, s2, x2, u2))"
    and rest: "if c then (s1, x1, u1) = (s2, x2, u2)
               else sqpLoop env initState nodes n s2 x2 u2 = Some (Inr (s1, x1, u1))"
    by (auto split: option.splits sum.splits if_splits)
  from sqpIterate_lengths[OF it] have l: "length x2 = length x" "length u2 = length u"
    by simp_all
  show ?case
  proof (cases c)
    case True
    with rest l show ?thesis by simp
  next
    case False
    with rest have "sqpLoop env initState nodes n s2 x2 u2 = Some (Inr (s1, x1, u1))" by simp
    from Suc.IH[OF this] l show ?thesis by simp
  qed
qed

lemma foldl_length_push:
  assumes "\<And>acc i. length (h acc i) = Suc (length acc)"
  shows "length (foldl h acc js) = length acc + length js"
  using assms by (induction js arbitrary: acc) simp_all

lemma initial_lengths:
  "nodes \<noteq> [] \<Longrightarrow> length (initializeStateTrajectory env s initState nodes) = length nodes"
  "length (initializeInputTrajectory env s nodes x) = length nodes - 1"
proof -
  show "nodes \<noteq> [] \<Longrightarrow> length (initializeStateTrajectory env s initState nodes) = length nodes"
  proof -
    assume "nodes \<noteq> []"
    then have "Suc (length nodes - Suc 0) = length nodes" by (cases nodes) simp_all
    then show ?thesis
      by (simp add: initializeStateTrajectory_def Let_def foldl_push_back)
  qed
  show "length (initializeInputTrajectory env s nodes x) = length nodes - 1"
    unfolding initializeInputTrajectory_def Let_def
    by (subst foldl_length_push) simp_all
qed

lemma runImpl_trajectory_sizes:
  assumes run: "runImpl env s initTime initState finalTime partitioningTimes = Some (Inr s1)"
    and grid: "2 \<le> length (timeDiscretizationWithEvents env initTime finalTime (dt (settings' s))
                  (eventTimes (modeSchedule s)))"
  shows "\<exists>s2 x u.
           s1 = setPrimalSolution env s2
                  (timeDiscretizationWithEvents env initTime finalTime (dt (settings' s))
                     (eventTimes (modeSchedule s))) x u \<and>
           length x = length (timeDiscretizationWithEvents env initTime finalTime (dt (settings' s))
                     (eventTimes (modeSchedule s))) \<and>
           length u + 1 = length (timeDiscretizationWithEvents env initTime finalTime
                     (dt (settings' s)) (eventTimes (modeSchedule s))) \<and>
           u \<noteq> []"
proof -
  define nodes where "nodes = timeDiscretizationWithEvents env initTime finalTime
      (dt (settings' s)) (eventTimes (modeSchedule s))"
  define x0 where "x0 = initializeStateTrajectory env s initState nodes"
  define u0 where "u0 = initializeInputTrajectory env s nodes x0"
  from grid have ne: "nodes \<noteq> []" and n2: "2 \<le> length nodes" by (auto simp add: nodes_def)
  from run obtain s2 x u where
    loop: "sqpLoop env initState nodes (sqpIteration (settings' s))
             (s\<lparr>performanceIndeces' := []\<rparr>) x0 u0 = Some (Inr (s2, x, u))"
    and s1: "s1 = setPrimalSolution env s2 nodes x u"
    by (auto simp add: runImpl_def Let_def nodes_def[symmetric] x0_def[symmetric]
        u0_def[symmetric] split: option.splits sum.splits)
  from sqpLoop_lengths[OF loop] initial_lengths(1)[OF ne] initial_lengths(2)
  have "length x = length nodes" "length u = length nodes - 1"
    by (simp_all add: x0_def u0_def)
  with n2 s1 show ?thesis
    unfolding nodes_def[symmetric] by (intro exI[of _ s2] exI[of _ x] exI[of _ u]) auto
qed


section \<open>Termination of the line search\<close>

text \<open>
  With a decay factor in \<open>[0, 1)\<close> and a positive \<open>alpha_min\<close> the step size falls to
  \<open>alpha_min\<close> after finitely many trials, so \<open>takeStep\<close> returns.
\<close>

lemma takeStep_returns:
  assumes d0: "0 \<le> alpha_decay (settings' s)" and d1: "alpha_decay (settings' s) < 1"
    and m: "0 < alpha_min (settings' s)"
  shows "\<exists>r. takeStep env s baseline timeDiscretization initState dx du x u = Some r"
proof -
  let ?d = "alpha_decay (settings' s)"
  let ?cont = "\<lambda>k. trialContinues env s baseline timeDiscretization initState dx du x u (?d ^ k)"
  from real_arch_pow_inv[OF m d1] obtain n where n: "?d ^ n < alpha_min (settings' s)"
    by blast
  have "?d ^ n * ?d \<le> ?d ^ n"
    using d0 d1 by (simp add: mult_left_le)
  with n have "\<not> ?cont n"
    by (simp add: trialContinues_def)
  then have stop: "\<not> ?cont (LEAST k. \<not> ?cont k)"
    by (rule LeastI[of "\<lambda>k. \<not> ?cont k"])
  have pre: "\<forall>j<(LEAST k. \<not> ?cont k). ?cont j"
    using not_less_Least[of _ "\<lambda>k. \<not> ?cont k"] by blast
  have "takeStep env s baseline timeDiscretization initState dx du x u =
      Some (trialResult env s baseline timeDiscretization initState dx du x u
              (1 * ?d ^ (LEAST k. \<not> ?cont k)))"
    unfolding takeStep_def
    by (rule takeStepLoop_trials[OF buffers_initial]) (use pre stop in simp_all)
  then show ?thesis by blast
qed


end
